theory Spec2Isabelle
  imports Complex_Main
begin

section \<open>The controller of node_discovery.py (class SimpleSwitch13)\<close>

text \<open>
  The application is a Ryu controller for OpenFlow 1.3. Its handlers mutate the
  attributes of the application object, send messages to switches, print, sleep and
  ask the discovery service for the topology. All of this is made explicit in one
  record, \<open>world\<close>: the attributes of \<open>self\<close>, the messages handed to
  \<open>datapath.send_msg\<close> in order, the console output in order, the arguments of
  \<open>time.sleep\<close> in order, and the two sources the program reads from: the answers
  of the discovery service and the random number generator.
\<close>

subsection \<open>OpenFlow 1.3 constants (\<open>datapath.ofproto\<close>)\<close>

text \<open>
  \<open>OFP_VERSIONS = [ofproto_v1_3.OFP_VERSION]\<close>, so \<open>datapath.ofproto\<close> is always the
  module of the OpenFlow 1.3 constants. Python integers are unbounded: \<open>int\<close>.
\<close>

definition OFPP_FLOOD :: int where "OFPP_FLOOD = 0xfffffffb"
definition OFPP_CONTROLLER :: int where "OFPP_CONTROLLER = 0xfffffffd"
definition OFPCML_NO_BUFFER :: int where "OFPCML_NO_BUFFER = 0xffff"
definition OFP_NO_BUFFER :: int where "OFP_NO_BUFFER = 0xffffffff"
definition OFPIT_APPLY_ACTIONS :: int where "OFPIT_APPLY_ACTIONS = 4"

subsection \<open>Messages (\<open>datapath.ofproto_parser\<close>)\<close>

type_synonym mac = string
type_synonym bytes = "nat list"

text \<open>The object \<open>datapath\<close>; \<open>dp_id\<close> is its attribute \<open>id\<close>.\<close>

record datapath =
  dp_id :: int

text \<open>\<open>OFPActionOutput(port)\<close> and \<open>OFPActionOutput(port, max_len)\<close>: the second
  argument is kept as it was passed (\<open>None\<close>: not passed).\<close>

datatype action = OFPActionOutput int "int option"

text \<open>\<open>OFPMatch(in_port=..., eth_dst=...)\<close>: a field is \<open>None\<close> when the keyword is
  not passed; \<open>OFPMatch()\<close> has both fields \<open>None\<close> and matches every packet.\<close>

record ofp_match =
  match_in_port :: "int option"
  match_eth_dst :: "mac option"

datatype instruction = OFPInstructionActions int "action list"

text \<open>\<open>OFPFlowMod(...)\<close>: \<open>buffer_id\<close> and \<open>cookie\<close> are \<open>None\<close> when the keyword
  is not passed to the constructor.\<close>

record flow_mod =
  fm_buffer_id :: "int option"
  fm_priority :: int
  fm_match :: ofp_match
  fm_instructions :: "instruction list"
  fm_cookie :: "int option"

text \<open>\<open>OFPPacketOut(...)\<close>: \<open>data\<close> is Python's \<open>None\<close> or the bytes of the frame.\<close>

record packet_out =
  po_buffer_id :: int
  po_in_port :: int
  po_actions :: "action list"
  po_data :: "bytes option"

datatype message = OFPFlowMod flow_mod | OFPPacketOut packet_out

subsection \<open>Events and topology objects\<close>

text \<open>The Ethernet header: \<open>eth.dst\<close> and \<open>eth.src\<close>.\<close>

record ethernet =
  eth_dst :: mac
  eth_src :: mac

text \<open>
  The message \<open>ev.msg\<close> of a packet-in event. \<open>pi_in_port\<close> is
  \<open>msg.match["in_port"]\<close>; \<open>pi_ethernet\<close> is the list
  \<open>packet.Packet(msg.data).get_protocols(ethernet.ethernet)\<close> that the library's
  parser finds in \<open>msg.data\<close>.
\<close>

record packet_in =
  pi_datapath :: datapath
  pi_msg_len :: int
  pi_total_len :: int
  pi_buffer_id :: int
  pi_in_port :: int
  pi_data :: bytes
  pi_ethernet :: "ethernet list"

text \<open>A switch as the discovery service reports it: \<open>sw_dpid\<close> is the string
  \<open>switch.to_dict()["dpid"]\<close>, \<open>sw_dp\<close> the attribute \<open>switch.dp\<close>.\<close>

record switch =
  sw_dpid :: string
  sw_dp :: datapath

record link =
  link_src :: "int \<times> int"
  link_dst :: "int \<times> int"

record host =
  host_mac :: mac
  host_port :: "int \<times> int"

text \<open>
  The class \<open>Graph\<close> is imported from a module that is not part of the source
  (\<open>from graph import Graph\<close>). The handler reads two attributes of the object:
  \<open>switch_path\<close>, a list, and \<open>ports\<close>, indexed twice. \<open>ports\<close> is a partial
  table: an index that is missing raises a lookup error.
\<close>

record graph =
  switch_path :: "int list"
  ports :: "int \<rightharpoonup> (int \<rightharpoonup> int)"

datatype exn = ValueError | IndexError | LookupError | GraphError

datatype console_line =
    Print string
  | PrintNoNewline string
  | PrintLink link
  | PrintSwitch switch
  | PrintHost host
  | PrintInstalling int
  | PrintMatchAction int int
  | LogDebug string int int
  | LogInfo string

subsection \<open>The state\<close>

record world =
  mac_to_port :: "int \<rightharpoonup> (mac \<rightharpoonup> int)"
  switches :: "switch list"
  links :: "link list"
  hosts :: "host list"
  graph :: "graph option"
  sent :: "(datapath \<times> message) list"
  console :: "console_line list"
  slept :: "rat list"
  discovery :: "nat \<Rightarrow> switch list \<times> link list \<times> host list"
  polls :: nat
  entropy :: "nat \<Rightarrow> nat"
  draws :: nat

text \<open>\<open>datapath.send_msg(m)\<close>.\<close>

definition send_msg :: "datapath \<Rightarrow> message \<Rightarrow> world \<Rightarrow> world" where
  "send_msg datapath m w = w\<lparr>sent := sent w @ [(datapath, m)]\<rparr>"

text \<open>\<open>print\<close> and \<open>self.logger\<close>.\<close>

definition emit :: "console_line \<Rightarrow> world \<Rightarrow> world" where
  "emit line w = w\<lparr>console := console w @ [line]\<rparr>"

text \<open>\<open>time.sleep(t)\<close>.\<close>

definition sleep :: "rat \<Rightarrow> world \<Rightarrow> world" where
  "sleep t w = w\<lparr>slept := slept w @ [t]\<rparr>"

text \<open>
  \<open>random.randint(a, b)\<close> returns an integer between \<open>a\<close> and \<open>b\<close>, both included.
  The generator is an arbitrary sequence of naturals, \<open>entropy\<close>, read at position
  \<open>draws\<close>; every value of the range can come out.
\<close>

definition randint :: "int \<Rightarrow> int \<Rightarrow> world \<Rightarrow> int \<times> world" where
  "randint a b w =
     (a + int (entropy w (draws w) mod nat (b - a + 1)), w\<lparr>draws := Suc (draws w)\<rparr>)"

text \<open>The truth value of \<open>buffer_id\<close> in \<open>if buffer_id:\<close>: \<open>None\<close> and \<open>0\<close> are
  false, every other integer is true.\<close>

definition truthy :: "int option \<Rightarrow> bool" where
  "truthy b = (case b of None \<Rightarrow> False | Some n \<Rightarrow> n \<noteq> 0)"

subsection \<open>\<open>add_flow\<close>\<close>

definition add_flow ::
  "datapath \<Rightarrow> int \<Rightarrow> ofp_match \<Rightarrow> action list \<Rightarrow> int option \<Rightarrow> world \<Rightarrow> world" where
  "add_flow datapath priority match actions buffer_id w =
     (let inst = [OFPInstructionActions OFPIT_APPLY_ACTIONS actions] in
      if truthy buffer_id then
        send_msg datapath
          (OFPFlowMod \<lparr>fm_buffer_id = buffer_id, fm_priority = priority, fm_match = match,
                       fm_instructions = inst, fm_cookie = None\<rparr>) w
      else
        (case randint 0 255 w of
           (cookie, w') \<Rightarrow>
             send_msg datapath
               (OFPFlowMod \<lparr>fm_buffer_id = None, fm_priority = priority, fm_match = match,
                            fm_instructions = inst, fm_cookie = Some cookie\<rparr>) w'))"

subsection \<open>\<open>switch_features_handler\<close>\<close>

definition switch_features_handler :: "datapath \<Rightarrow> world \<Rightarrow> world" where
  "switch_features_handler datapath w =
     (let match = \<lparr>match_in_port = None, match_eth_dst = None\<rparr>;
          actions = [OFPActionOutput OFPP_CONTROLLER (Some OFPCML_NO_BUFFER)]
      in add_flow datapath 0 match actions None w)"

subsection \<open>\<open>handler_switch_leave\<close>\<close>

definition handler_switch_leave :: "switch \<Rightarrow> world \<Rightarrow> world" where
  "handler_switch_leave ev w = emit (LogInfo ''Not tracking Switches, switch leaved.'') w"

subsection \<open>\<open>_packet_in_handler\<close>\<close>

text \<open>
  Lines 156 and 159: \<open>self.mac_to_port.setdefault(dpid, {})\<close> and
  \<open>self.mac_to_port[dpid][src] = in_port\<close>. \<open>mac_table w dpid\<close> is the table
  \<open>self.mac_to_port[dpid]\<close>, empty when \<open>dpid\<close> has none yet, which is what
  \<open>setdefault\<close> enters.
\<close>

definition mac_table :: "world \<Rightarrow> int \<Rightarrow> (mac \<rightharpoonup> int)" where
  "mac_table w dpid = (case mac_to_port w dpid of None \<Rightarrow> Map.empty | Some t \<Rightarrow> t)"

definition learn :: "int \<Rightarrow> mac \<Rightarrow> int \<Rightarrow> world \<Rightarrow> world" where
  "learn dpid src in_port w =
     w\<lparr>mac_to_port := (mac_to_port w)(dpid \<mapsto> (mac_table w dpid)(src \<mapsto> in_port))\<rparr>"

text \<open>Lines 178 to 189: the packet-out that ends the handler.\<close>

definition send_packet_out :: "packet_in \<Rightarrow> int \<Rightarrow> action list \<Rightarrow> world \<Rightarrow> world" where
  "send_packet_out msg in_port actions w =
     (let data = (if pi_buffer_id msg = OFP_NO_BUFFER then Some (pi_data msg) else None);
          out = OFPPacketOut \<lparr>po_buffer_id = pi_buffer_id msg, po_in_port = in_port,
                              po_actions = actions, po_data = data\<rparr>
      in send_msg (pi_datapath msg) out w)"

text \<open>
  The handler returns the exception it raises, if any, with the state at that point:
  \<open>get_protocols(ethernet.ethernet)[0]\<close> raises \<open>IndexError\<close> on an empty list.
\<close>

definition packet_in_handler :: "packet_in \<Rightarrow> world \<Rightarrow> exn option \<times> world" where
  "packet_in_handler msg w =
     (let w0 = (if pi_msg_len msg < pi_total_len msg
                then emit (LogDebug ''packet truncated: only %s of %s bytes''
                             (pi_msg_len msg) (pi_total_len msg)) w
                else w);
          datapath = pi_datapath msg;
          in_port = pi_in_port msg
      in case pi_ethernet msg of
           [] \<Rightarrow> (Some IndexError, w0)
         | eth # _ \<Rightarrow>
             (let dst = eth_dst eth;
                  src = eth_src eth;
                  dpid = dp_id datapath;
                  w1 = learn dpid src in_port w0;
                  out_port = (case mac_table w1 dpid dst of
                                Some p \<Rightarrow> p
                              | None \<Rightarrow> OFPP_FLOOD);
                  actions = [OFPActionOutput out_port None]
              in if out_port \<noteq> OFPP_FLOOD then
                   (let match = \<lparr>match_in_port = Some in_port, match_eth_dst = Some dst\<rparr>
                    in if pi_buffer_id msg \<noteq> OFP_NO_BUFFER then
                         (None, add_flow datapath 1 match actions (Some (pi_buffer_id msg)) w1)
                       else
                         (None, send_packet_out msg in_port actions
                                  (add_flow datapath 1 match actions None w1)))
                 else (None, send_packet_out msg in_port actions w1)))"

subsection \<open>\<open>get_topology\<close>\<close>

text \<open>
  \<open>get_switch(self)\<close>, \<open>get_link(self)\<close> and \<open>get_host(self)\<close> ask the discovery
  service. \<open>discovery w k\<close> is what the three calls of the \<open>k\<close>-th round answer;
  \<open>polls\<close> counts the rounds made so far.
\<close>

definition get_switch :: "world \<Rightarrow> switch list" where
  "get_switch w = fst (discovery w (polls w))"

definition get_link :: "world \<Rightarrow> link list" where
  "get_link w = fst (snd (discovery w (polls w)))"

definition get_host :: "world \<Rightarrow> host list" where
  "get_host w = snd (snd (discovery w (polls w)))"

text \<open>Lines 192 to 194, and again 199 to 201.\<close>

definition poll_discovery :: "world \<Rightarrow> world" where
  "poll_discovery w =
     w\<lparr>switches := get_switch w, links := get_link w, hosts := get_host w,
       polls := Suc (polls w)\<rparr>"

text \<open>The \<open>while\<close> loop may run forever: the result \<open>None\<close> is "does not return".\<close>

partial_function (option) wait_loop :: "world \<Rightarrow> world option" where
  "wait_loop w =
     (if length (switches w) \<noteq> length (hosts w) then
        wait_loop (poll_discovery (emit (Print (CHR 0x0D # ''Loading....'')) (sleep (5 / 100) w)))
      else Some w)"

definition get_topology :: "world \<Rightarrow> world option" where
  "get_topology w = wait_loop (poll_discovery w)"

subsection \<open>\<open>handler_switch_event\<close>\<close>

text \<open>
  \<open>int(s)\<close> for a string: blanks around the number are dropped (the space and the
  characters 0x09 to 0x0D), one sign is allowed, and the digits are decimal, with single
  underscores allowed between digits. Anything else raises \<open>ValueError\<close> (\<open>None\<close>).
  Strings are ASCII here.
\<close>

definition py_isspace :: "char \<Rightarrow> bool" where
  "py_isspace c = (c \<in> set [CHR '' '', CHR 0x09, CHR 0x0A, CHR 0x0B, CHR 0x0C, CHR 0x0D])"

definition py_isdigit :: "char \<Rightarrow> bool" where
  "py_isdigit c = (c \<in> set ''0123456789'')"

definition py_strip :: "string \<Rightarrow> string" where
  "py_strip s = rev (dropWhile py_isspace (rev (dropWhile py_isspace s)))"

text \<open>\<open>digits_ok prev s\<close>: \<open>prev\<close> says that the character before \<open>s\<close> is a digit.\<close>

fun digits_ok :: "bool \<Rightarrow> string \<Rightarrow> bool" where
  "digits_ok prev [] = prev"
| "digits_ok prev (c # cs) =
     (if py_isdigit c then digits_ok True cs
      else c = CHR ''_'' \<and> prev \<and> digits_ok False cs)"

definition digits_value :: "string \<Rightarrow> int" where
  "digits_value s = foldl (\<lambda>acc c. 10 * acc + (int (of_char c) - 48)) 0 (filter py_isdigit s)"

definition py_int :: "string \<Rightarrow> int option" where
  "py_int s =
     (case py_strip s of
        [] \<Rightarrow> None
      | c # cs \<Rightarrow>
          (if c = CHR ''-'' then (if digits_ok False cs then Some (- digits_value cs) else None)
           else if c = CHR ''+'' then (if digits_ok False cs then Some (digits_value cs) else None)
           else (if digits_ok False (c # cs) then Some (digits_value (c # cs)) else None)))"

text \<open>\<open>xs.index(x)\<close>: the first position of \<open>x\<close>; \<open>None\<close> is the \<open>ValueError\<close> of a
  missing element.\<close>

fun py_index :: "'a list \<Rightarrow> 'a \<Rightarrow> nat option" where
  "py_index [] x = None"
| "py_index (y # ys) x =
     (if y = x then Some 0 else (case py_index ys x of None \<Rightarrow> None | Some n \<Rightarrow> Some (Suc n)))"

text \<open>\<open>self.graph.ports[a][b]\<close>.\<close>

definition ports_at :: "graph \<Rightarrow> int \<Rightarrow> int \<Rightarrow> int option" where
  "ports_at g a b = (case ports g a of None \<Rightarrow> None | Some row \<Rightarrow> row b)"

text \<open>A \<open>for\<close> loop that prints each element.\<close>

fun emit_all :: "console_line list \<Rightarrow> world \<Rightarrow> world" where
  "emit_all [] w = w"
| "emit_all (l # ls) w = emit_all ls (emit l w)"

text \<open>
  The body of the loop \<open>for switch in self.switches\<close> (lines 230 to 262); \<open>len\<close> is
  the variable \<open>length\<close> of line 228. \<open>continue\<close> is the result \<open>(None, w)\<close>.
\<close>

definition program_switch :: "graph \<Rightarrow> nat \<Rightarrow> switch \<Rightarrow> world \<Rightarrow> exn option \<times> world" where
  "program_switch g len switch w =
     (case py_int (sw_dpid switch) of
        None \<Rightarrow> (Some ValueError, w)
      | Some d \<Rightarrow>
          (let src_id = d - 1 in
           if src_id \<notin> set (switch_path g) then (None, w)
           else
             (case py_index (switch_path g) src_id of
                None \<Rightarrow> (Some ValueError, w)
              | Some i \<Rightarrow>
                  (let datapath = sw_dp switch in
                   case (if i = 0 then Some 1
                         else ports_at g src_id (switch_path g ! (i - 1))) of
                     None \<Rightarrow> (Some LookupError, w)
                   | Some in_port \<Rightarrow>
                       (case (if int i = int len - 1 then Some 1
                              else ports_at g src_id (switch_path g ! (i + 1))) of
                          None \<Rightarrow> (Some LookupError, w)
                        | Some out_port \<Rightarrow>
                            (let w1 = emit (PrintInstalling (src_id + 1)) w;
                                 w2 = emit (PrintMatchAction in_port out_port) w1;
                                 w3 = add_flow datapath 200
                                        \<lparr>match_in_port = Some in_port, match_eth_dst = None\<rparr>
                                        [OFPActionOutput out_port None] None w2;
                                 w4 = emit (PrintMatchAction out_port in_port) w3;
                                 w5 = add_flow datapath 200
                                        \<lparr>match_in_port = Some out_port, match_eth_dst = None\<rparr>
                                        [OFPActionOutput in_port None] None w4
                             in (None, w5)))))))"

text \<open>The loop: an exception ends it, and what was sent before stays sent.\<close>

fun program_switches :: "graph \<Rightarrow> nat \<Rightarrow> switch list \<Rightarrow> world \<Rightarrow> exn option \<times> world" where
  "program_switches g len [] w = (None, w)"
| "program_switches g len (s # ss) w =
     (case program_switch g len s w of
        (None, w') \<Rightarrow> program_switches g len ss w'
      | (Some e, w') \<Rightarrow> (Some e, w'))"

text \<open>
  The handler. The constructor \<open>Graph(switches, hosts, links)\<close> of the missing module is
  the parameter \<open>Graph\<close>; it returns the object or raises. The outer \<open>None\<close> is
  "\<open>get_topology\<close> does not return".
\<close>

definition handler_switch_event ::
  "(switch list \<Rightarrow> host list \<Rightarrow> link list \<Rightarrow> exn + graph) \<Rightarrow> switch \<Rightarrow> world
     \<Rightarrow> (exn option \<times> world) option" where
  "handler_switch_event Graph ev w =
     (case get_topology (emit (PrintNoNewline ''New Switch'') w) of
        None \<Rightarrow> None
      | Some w1 \<Rightarrow>
          (let w2 = emit (Print ''-------------------------------------------------'') w1;
               w3 = emit_all (map PrintLink (links w2))
                      (emit (Print (CHR 0x0A # ''All Links:'')) w2);
               w4 = emit_all (map PrintSwitch (switches w3))
                      (emit (Print (CHR 0x0A # ''All Switches:'')) w3);
               w5 = emit_all (map PrintHost (hosts w4))
                      (emit (Print (CHR 0x0A # ''All Hosts:'')) w4)
           in case Graph (switches w5) (hosts w5) (links w5) of
                Inl e \<Rightarrow> Some (Some e, w5)
              | Inr g \<Rightarrow>
                  (let w6 = emit (Print (CHR 0x0A # ''Flows:'')) (w5\<lparr>graph := Some g\<rparr>);
                       len = length (switch_path g)
                   in Some (program_switches g len (switches w6) w6))))"

section \<open>Vocabulary of the properties\<close>

text \<open>The messages sent between the state \<open>w\<close> and the later state \<open>w'\<close>.\<close>

definition emitted :: "world \<Rightarrow> world \<Rightarrow> (datapath \<times> message) list" where
  "emitted w w' = drop (length (sent w)) (sent w')"

text \<open>The action list a message carries.\<close>

definition msg_actions :: "message \<Rightarrow> action list" where
  "msg_actions m =
     (case m of
        OFPFlowMod fm \<Rightarrow>
          concat (map (\<lambda>i. case i of OFPInstructionActions t as \<Rightarrow> as) (fm_instructions fm))
      | OFPPacketOut po \<Rightarrow> po_actions po)"

text \<open>
  The two ways a frame gets forwarded: a packet-out, or a flow-mod that carries the
  buffer reference \<open>b\<close> of the frame, which the switch resolves with the new rule.
\<close>

definition is_packet_out :: "datapath \<times> message \<Rightarrow> bool" where
  "is_packet_out x = (case snd x of OFPFlowMod fm \<Rightarrow> False | OFPPacketOut po \<Rightarrow> True)"

definition resolves_buffer :: "int \<Rightarrow> datapath \<times> message \<Rightarrow> bool" where
  "resolves_buffer b x =
     (case snd x of OFPFlowMod fm \<Rightarrow> fm_buffer_id fm = Some b | OFPPacketOut po \<Rightarrow> False)"

text \<open>Packet-in events handled one after the other. An exception of one handler call is
  logged by the framework and the next event is handled in the state it left.\<close>

fun handle_packets :: "packet_in list \<Rightarrow> world \<Rightarrow> world" where
  "handle_packets [] w = w"
| "handle_packets (m # ms) w = handle_packets ms (snd (packet_in_handler m w))"

text \<open>A discovery answer with as many switches as hosts.\<close>

definition balanced :: "switch list \<times> link list \<times> host list \<Rightarrow> bool" where
  "balanced snapshot = (length (fst snapshot) = length (snd (snd snapshot)))"

text \<open>
  The state in which the wait ends at round \<open>n\<close> of the discovery service: the
  topology is the answer of round \<open>n\<close>, and every round before it, from \<open>polls w\<close>
  on, was followed by one sleep of 0.05 seconds and one line on the console.
\<close>

definition converged :: "world \<Rightarrow> nat \<Rightarrow> world" where
  "converged w n =
     w\<lparr>switches := fst (discovery w n),
       links := fst (snd (discovery w n)),
       hosts := snd (snd (discovery w n)),
       polls := Suc n,
       slept := slept w @ replicate (n - polls w) (5 / 100),
       console := console w @ replicate (n - polls w) (Print (CHR 0x0D # ''Loading....''))\<rparr>"

text \<open>The identifier of a switch in the path: \<open>int(data["dpid"]) - 1\<close> (line 231).\<close>

definition src_id :: "switch \<Rightarrow> int option" where
  "src_id s = map_option (\<lambda>d. d - 1) (py_int (sw_dpid s))"

text \<open>
  The ingress and the egress port of position \<open>i\<close> of the path, in the words of the
  specification: the first and the last hop use the host-facing port 1, every other hop
  the port of the table towards the neighbour on the path.
\<close>

definition path_ingress :: "graph \<Rightarrow> nat \<Rightarrow> int option" where
  "path_ingress g i =
     (if i = 0 then Some 1 else ports_at g (switch_path g ! i) (switch_path g ! (i - 1)))"

definition path_egress :: "graph \<Rightarrow> nat \<Rightarrow> int option" where
  "path_egress g i =
     (if Suc i = length (switch_path g) then Some 1
      else ports_at g (switch_path g ! i) (switch_path g ! (i + 1)))"

text \<open>The rule "match ingress port \<open>a\<close>, output on port \<open>b\<close>" of the path programming,
  without its cookie.\<close>

definition path_rule :: "int \<Rightarrow> int \<Rightarrow> message" where
  "path_rule a b = OFPFlowMod
     \<lparr>fm_buffer_id = None, fm_priority = 200,
      fm_match = \<lparr>match_in_port = Some a, match_eth_dst = None\<rparr>,
      fm_instructions = [OFPInstructionActions OFPIT_APPLY_ACTIONS [OFPActionOutput b None]],
      fm_cookie = None\<rparr>"

text \<open>A sent message with the random cookie of a flow-mod removed.\<close>

definition without_cookie :: "datapath \<times> message \<Rightarrow> datapath \<times> message" where
  "without_cookie x =
     (case snd x of
        OFPFlowMod fm \<Rightarrow> (fst x, OFPFlowMod (fm\<lparr>fm_cookie := None\<rparr>))
      | OFPPacketOut po \<Rightarrow> x)"

text \<open>
  What the specification promises a switch: nothing when it is not on the path, and
  otherwise the forward rule and the reverse rule of its position.
\<close>

definition rule_pair :: "graph \<Rightarrow> switch \<Rightarrow> (datapath \<times> message) list" where
  "rule_pair g s =
     (case src_id s of
        None \<Rightarrow> []
      | Some x \<Rightarrow>
          (case py_index (switch_path g) x of
             None \<Rightarrow> []
           | Some i \<Rightarrow>
               (case path_ingress g i of
                  None \<Rightarrow> []
                | Some a \<Rightarrow>
                    (case path_egress g i of
                       None \<Rightarrow> []
                     | Some b \<Rightarrow> [(sw_dp s, path_rule a b), (sw_dp s, path_rule b a)]))))"

section \<open>Example inputs\<close>

text \<open>
  Three switches in a line, 1 - 2 - 3, and a fourth switch that is not on the path. The
  discovery service reports four switches and four hosts from the first round on.
\<close>

definition line_sw1 :: switch where
  "line_sw1 = \<lparr>sw_dpid = ''0000000000000001'', sw_dp = \<lparr>dp_id = 1\<rparr>\<rparr>"

definition line_sw2 :: switch where
  "line_sw2 = \<lparr>sw_dpid = ''0000000000000002'', sw_dp = \<lparr>dp_id = 2\<rparr>\<rparr>"

definition line_sw3 :: switch where
  "line_sw3 = \<lparr>sw_dpid = ''0000000000000003'', sw_dp = \<lparr>dp_id = 3\<rparr>\<rparr>"

definition spare_sw4 :: switch where
  "spare_sw4 = \<lparr>sw_dpid = ''0000000000000004'', sw_dp = \<lparr>dp_id = 4\<rparr>\<rparr>"

definition line_hosts :: "host list" where
  "line_hosts =
     [\<lparr>host_mac = ''00:00:00:00:00:01'', host_port = (1, 1)\<rparr>,
      \<lparr>host_mac = ''00:00:00:00:00:02'', host_port = (2, 1)\<rparr>,
      \<lparr>host_mac = ''00:00:00:00:00:03'', host_port = (3, 1)\<rparr>,
      \<lparr>host_mac = ''00:00:00:00:00:04'', host_port = (3, 4)\<rparr>]"

definition line_links :: "link list" where
  "line_links =
     [\<lparr>link_src = (1, 2), link_dst = (2, 2)\<rparr>, \<lparr>link_src = (2, 2), link_dst = (1, 2)\<rparr>,
      \<lparr>link_src = (2, 3), link_dst = (3, 2)\<rparr>, \<lparr>link_src = (3, 2), link_dst = (2, 3)\<rparr>]"

definition line_graph :: graph where
  "line_graph =
     \<lparr>switch_path = [0, 1, 2],
      ports = [0 \<mapsto> [1 \<mapsto> 2], 1 \<mapsto> [0 \<mapsto> 2, 2 \<mapsto> 3], 2 \<mapsto> [1 \<mapsto> 2]]\<rparr>"

definition line_Graph :: "switch list \<Rightarrow> host list \<Rightarrow> link list \<Rightarrow> exn + graph" where
  "line_Graph sws hs ls = Inr line_graph"

definition line_world :: world where
  "line_world =
     \<lparr>mac_to_port = Map.empty, switches = [], links = [], hosts = [], graph = None,
      sent = [], console = [], slept = [],
      discovery = (\<lambda>k. ([line_sw1, line_sw2, spare_sw4, line_sw3], line_links, line_hosts)),
      polls = 0, entropy = (\<lambda>k. 300 + k), draws = 0\<rparr>"

text \<open>
  The same network with a further switch whose datapath id is 10. The library renders the
  id as sixteen hexadecimal digits, so \<open>switch.to_dict()["dpid"]\<close> is
  \<open>000000000000000a\<close>. The switch is reported first and is not on the path.
\<close>

definition hex_sw10 :: switch where
  "hex_sw10 = \<lparr>sw_dpid = ''000000000000000a'', sw_dp = \<lparr>dp_id = 10\<rparr>\<rparr>"

definition hex_world :: world where
  "hex_world =
     line_world\<lparr>discovery :=
       (\<lambda>k. ([hex_sw10, line_sw1, line_sw2, line_sw3], line_links, line_hosts))\<rparr>"

text \<open>A discovery service that needs two more rounds: one switch and no host, then four
  switches and two hosts, then four switches and four hosts.\<close>

definition slow_world :: world where
  "slow_world =
     line_world\<lparr>discovery :=
       (\<lambda>k. if k = 0 then ([line_sw1], [], [])
            else if k = 1 then ([line_sw1, line_sw2, spare_sw4, line_sw3], line_links,
                                take 2 line_hosts)
            else ([line_sw1, line_sw2, spare_sw4, line_sw3], line_links, line_hosts))\<rparr>"

text \<open>
  Frames at switch 1. \<open>pkt_arp\<close>: host 1 broadcasts from port 1, not buffered.
  \<open>pkt_other\<close>: host 3 broadcasts from port 2. \<open>pkt_reply\<close>: host 2 answers host 1
  from port 2, not buffered. \<open>pkt_reply_buffered\<close>: the same frame, held by the switch
  in buffer 0. \<open>pkt_moved\<close>: a frame from the address of host 1 to that same address,
  arriving at port 3.
\<close>

definition pkt_arp :: packet_in where
  "pkt_arp =
     \<lparr>pi_datapath = \<lparr>dp_id = 1\<rparr>, pi_msg_len = 60, pi_total_len = 60,
      pi_buffer_id = OFP_NO_BUFFER, pi_in_port = 1, pi_data = [1, 2, 3],
      pi_ethernet = [\<lparr>eth_dst = ''ff:ff:ff:ff:ff:ff'', eth_src = ''00:00:00:00:00:01''\<rparr>]\<rparr>"

definition pkt_other :: packet_in where
  "pkt_other =
     \<lparr>pi_datapath = \<lparr>dp_id = 1\<rparr>, pi_msg_len = 60, pi_total_len = 60,
      pi_buffer_id = OFP_NO_BUFFER, pi_in_port = 2, pi_data = [7, 8, 9],
      pi_ethernet = [\<lparr>eth_dst = ''ff:ff:ff:ff:ff:ff'', eth_src = ''00:00:00:00:00:03''\<rparr>]\<rparr>"

definition pkt_reply :: packet_in where
  "pkt_reply =
     \<lparr>pi_datapath = \<lparr>dp_id = 1\<rparr>, pi_msg_len = 60, pi_total_len = 60,
      pi_buffer_id = OFP_NO_BUFFER, pi_in_port = 2, pi_data = [4, 5, 6],
      pi_ethernet = [\<lparr>eth_dst = ''00:00:00:00:00:01'', eth_src = ''00:00:00:00:00:02''\<rparr>]\<rparr>"

definition pkt_reply_buffered :: packet_in where
  "pkt_reply_buffered = pkt_reply\<lparr>pi_buffer_id := 0\<rparr>"

definition pkt_moved :: packet_in where
  "pkt_moved =
     \<lparr>pi_datapath = \<lparr>dp_id = 1\<rparr>, pi_msg_len = 60, pi_total_len = 60,
      pi_buffer_id = OFP_NO_BUFFER, pi_in_port = 3, pi_data = [4, 5, 6],
      pi_ethernet = [\<lparr>eth_dst = ''00:00:00:00:00:01'', eth_src = ''00:00:00:00:00:01''\<rparr>]\<rparr>"

text \<open>The state after \<open>pkt_arp\<close>: switch 1 has learnt host 1 at port 1.\<close>

definition learnt_world :: world where
  "learnt_world = snd (packet_in_handler pkt_arp line_world)"

section \<open>What one call changes\<close>

lemma add_flow_eq:
  "add_flow datapath priority match actions buffer_id w =
     (if truthy buffer_id then
        w\<lparr>sent := sent w @ [(datapath, OFPFlowMod \<lparr>fm_buffer_id = buffer_id, fm_priority = priority,
              fm_match = match,
              fm_instructions = [OFPInstructionActions OFPIT_APPLY_ACTIONS actions],
              fm_cookie = None\<rparr>)]\<rparr>
      else
        w\<lparr>sent := sent w @ [(datapath, OFPFlowMod \<lparr>fm_buffer_id = None, fm_priority = priority,
              fm_match = match,
              fm_instructions = [OFPInstructionActions OFPIT_APPLY_ACTIONS actions],
              fm_cookie = Some (int (entropy w (draws w) mod 256))\<rparr>)],
          draws := Suc (draws w)\<rparr>)"
  by (simp add: add_flow_def send_msg_def randint_def)

lemma mac_table_learn:
  "mac_table (learn k s p w) k' = (if k' = k then (mac_table w k)(s \<mapsto> p) else mac_table w k')"
  by (simp add: mac_table_def learn_def)

lemma mac_table_emit [simp]: "mac_table (emit l w) k = mac_table w k"
  by (simp add: mac_table_def emit_def)

lemma mac_table_add_flow [simp]: "mac_table (add_flow d p m a b w) k = mac_table w k"
  by (simp add: add_flow_eq mac_table_def)

lemma mac_table_send_packet_out [simp]: "mac_table (send_packet_out m p a w) k = mac_table w k"
  by (simp add: send_packet_out_def send_msg_def mac_table_def Let_def)

lemma sent_learn [simp]: "sent (learn k s p w) = sent w"
  by (simp add: learn_def)

lemma sent_emit [simp]: "sent (emit l w) = sent w"
  by (simp add: emit_def)

lemma sent_emit_all [simp]: "sent (emit_all ls w) = sent w"
  by (induction ls arbitrary: w) simp_all

lemma rng_learn [simp]:
  "entropy (learn k s p w) = entropy w" "draws (learn k s p w) = draws w"
  by (simp_all add: learn_def)

lemma rng_emit [simp]:
  "entropy (emit l w) = entropy w" "draws (emit l w) = draws w"
  by (simp_all add: emit_def)

lemma topology_emit [simp]:
  "switches (emit l w) = switches w" "links (emit l w) = links w" "hosts (emit l w) = hosts w"
  by (simp_all add: emit_def)

lemma topology_emit_all [simp]:
  "switches (emit_all ls w) = switches w" "links (emit_all ls w) = links w"
  "hosts (emit_all ls w) = hosts w"
  by (induction ls arbitrary: w) simp_all

lemma sent_send_packet_out:
  "sent (send_packet_out msg in_port actions w) =
     sent w @ [(pi_datapath msg, OFPPacketOut
        \<lparr>po_buffer_id = pi_buffer_id msg, po_in_port = in_port, po_actions = actions,
         po_data = (if pi_buffer_id msg = OFP_NO_BUFFER then Some (pi_data msg) else None)\<rparr>)]"
  by (simp add: send_packet_out_def send_msg_def)

lemma emitted_append: "sent w' = sent w @ xs \<Longrightarrow> emitted w w' = xs"
  by (simp add: emitted_def)

section \<open>The table-miss rule\<close>

text \<open>
  Claim C10. On a switch-features event the handler sends exactly one message to the
  switch of the event: a flow-mod of priority 0 whose match is empty, whose only
  instruction applies the single action "output to the controller, no buffering", with
  a cookie drawn from 0..255 and no buffer reference. Nothing else changes but the
  position of the random generator: the MAC table and the stored topology are those of
  before.
\<close>

theorem switch_features_installs_table_miss:
  "switch_features_handler datapath w =
     w\<lparr>sent := sent w @
          [(datapath, OFPFlowMod
             \<lparr>fm_buffer_id = None, fm_priority = 0,
              fm_match = \<lparr>match_in_port = None, match_eth_dst = None\<rparr>,
              fm_instructions = [OFPInstructionActions OFPIT_APPLY_ACTIONS
                                   [OFPActionOutput OFPP_CONTROLLER (Some OFPCML_NO_BUFFER)]],
              fm_cookie = Some (int (entropy w (draws w) mod 256))\<rparr>)],
       draws := Suc (draws w)\<rparr>"
  by (simp add: switch_features_handler_def add_flow_eq truthy_def)

theorem switch_features_installs_table_miss_witness:
  "sent (switch_features_handler \<lparr>dp_id = 1\<rparr> line_world) =
     [(\<lparr>dp_id = 1\<rparr>, OFPFlowMod
         \<lparr>fm_buffer_id = None, fm_priority = 0,
          fm_match = \<lparr>match_in_port = None, match_eth_dst = None\<rparr>,
          fm_instructions = [OFPInstructionActions 4 [OFPActionOutput 0xfffffffd (Some 0xffff)]],
          fm_cookie = Some 44\<rparr>)] \<and>
   mac_to_port (switch_features_handler \<lparr>dp_id = 1\<rparr> line_world) = Map.empty"
  using switch_features_installs_table_miss [of "\<lparr>dp_id = 1\<rparr>" line_world]
  by (simp add: line_world_def OFPIT_APPLY_ACTIONS_def OFPP_CONTROLLER_def OFPCML_NO_BUFFER_def)

section \<open>A switch leaves\<close>

text \<open>
  Claim C9. The handler of a switch-leave event writes one line to the log and does
  nothing else: the state after it is the state before it with that line appended to
  the console. No message is sent, and the MAC table and the stored switches, links and
  hosts are unchanged.
\<close>

theorem switch_leave_only_logs:
  "handler_switch_leave ev w =
     w\<lparr>console := console w @ [LogInfo ''Not tracking Switches, switch leaved.'']\<rparr>"
  by (simp add: handler_switch_leave_def emit_def)

theorem switch_leave_only_logs_witness:
  "console (handler_switch_leave line_sw1 learnt_world) =
     console learnt_world @ [LogInfo ''Not tracking Switches, switch leaved.''] \<and>
   sent (handler_switch_leave line_sw1 learnt_world) = sent learnt_world \<and>
   mac_to_port (handler_switch_leave line_sw1 learnt_world) = mac_to_port learnt_world \<and>
   switches (handler_switch_leave line_sw1 learnt_world) = switches learnt_world \<and>
   links (handler_switch_leave line_sw1 learnt_world) = links learnt_world \<and>
   hosts (handler_switch_leave line_sw1 learnt_world) = hosts learnt_world"
  using switch_leave_only_logs [of line_sw1 learnt_world] by simp

section \<open>The buffer reference of \<open>add_flow\<close>\<close>

text \<open>
  Claim C3, at the input where the code departs from it. \<open>add_flow\<close> is called with the
  buffer reference 0, which is a buffer the switch can hold (only \<open>OFP_NO_BUFFER\<close>
  stands for "no buffer"). \<open>if buffer_id:\<close> takes 0 for false: the one flow-mod that
  is sent carries a fresh cookie and no buffer reference.
\<close>

theorem add_flow_buffer_zero_gets_cookie:
  "sent (add_flow \<lparr>dp_id = 1\<rparr> 1
           \<lparr>match_in_port = Some 2, match_eth_dst = Some ''00:00:00:00:00:01''\<rparr>
           [OFPActionOutput 1 None] (Some 0) line_world) =
     [(\<lparr>dp_id = 1\<rparr>, OFPFlowMod
         \<lparr>fm_buffer_id = None, fm_priority = 1,
          fm_match = \<lparr>match_in_port = Some 2, match_eth_dst = Some ''00:00:00:00:00:01''\<rparr>,
          fm_instructions = [OFPInstructionActions OFPIT_APPLY_ACTIONS [OFPActionOutput 1 None]],
          fm_cookie = Some 44\<rparr>)]"
  by (simp add: add_flow_eq truthy_def line_world_def)

section \<open>The learning switch\<close>

lemma mac_table_packet_in:
  "mac_table (snd (packet_in_handler m w)) k =
     (case pi_ethernet m of
        [] \<Rightarrow> mac_table w k
      | e # _ \<Rightarrow> if k = dp_id (pi_datapath m)
                 then (mac_table w k)(eth_src e \<mapsto> pi_in_port m)
                 else mac_table w k)"
  by (simp add: packet_in_handler_def Let_def mac_table_learn split: list.split)

lemma learnt_port_kept:
  assumes "mac_table w K S = Some P"
    and "\<forall>m \<in> set ms. \<forall>e r. dp_id (pi_datapath m) = K \<and> pi_ethernet m = e # r \<longrightarrow> eth_src e \<noteq> S"
  shows "mac_table (handle_packets ms w) K S = Some P"
  using assms
proof (induction ms arbitrary: w)
  case Nil
  then show ?case by simp
next
  case (Cons m ms)
  have "mac_table (snd (packet_in_handler m w)) K S = Some P"
    using Cons.prems by (auto simp: mac_table_packet_in split: list.split)
  with Cons show ?case by simp
qed

lemma packet_in_returns:
  "pi_ethernet m = e # r \<Longrightarrow> fst (packet_in_handler m w) = None"
  by (simp add: packet_in_handler_def Let_def)

lemma packet_in_sent:
  assumes eth: "pi_ethernet m = e # r"
    and out: "out = (case ((mac_table w (dp_id (pi_datapath m)))(eth_src e \<mapsto> pi_in_port m))
                            (eth_dst e) of Some p \<Rightarrow> p | None \<Rightarrow> OFPP_FLOOD)"
  shows "sent (snd (packet_in_handler m w)) = sent w @
          (if out \<noteq> OFPP_FLOOD then
             (if pi_buffer_id m \<noteq> OFP_NO_BUFFER
              then [(pi_datapath m, OFPFlowMod
                      \<lparr>fm_buffer_id = (if pi_buffer_id m = 0 then None else Some (pi_buffer_id m)),
                       fm_priority = 1,
                       fm_match = \<lparr>match_in_port = Some (pi_in_port m),
                                   match_eth_dst = Some (eth_dst e)\<rparr>,
                       fm_instructions = [OFPInstructionActions OFPIT_APPLY_ACTIONS
                                            [OFPActionOutput out None]],
                       fm_cookie = (if pi_buffer_id m = 0
                                    then Some (int (entropy w (draws w) mod 256)) else None)\<rparr>)]
              else [(pi_datapath m, OFPFlowMod
                      \<lparr>fm_buffer_id = None,
                       fm_priority = 1,
                       fm_match = \<lparr>match_in_port = Some (pi_in_port m),
                                   match_eth_dst = Some (eth_dst e)\<rparr>,
                       fm_instructions = [OFPInstructionActions OFPIT_APPLY_ACTIONS
                                            [OFPActionOutput out None]],
                       fm_cookie = Some (int (entropy w (draws w) mod 256))\<rparr>),
                    (pi_datapath m, OFPPacketOut
                      \<lparr>po_buffer_id = pi_buffer_id m, po_in_port = pi_in_port m,
                       po_actions = [OFPActionOutput out None], po_data = Some (pi_data m)\<rparr>)])
           else [(pi_datapath m, OFPPacketOut
                   \<lparr>po_buffer_id = pi_buffer_id m, po_in_port = pi_in_port m,
                    po_actions = [OFPActionOutput OFPP_FLOOD None],
                    po_data = (if pi_buffer_id m = OFP_NO_BUFFER
                               then Some (pi_data m) else None)\<rparr>)])"
  unfolding out
  by (simp add: packet_in_handler_def Let_def eth mac_table_learn
        sent_send_packet_out add_flow_eq truthy_def
        del: fun_upd_apply)

lemma packet_in_known_destination:
  assumes eth: "pi_ethernet m = e # r"
    and known: "((mac_table w (dp_id (pi_datapath m)))(eth_src e \<mapsto> pi_in_port m)) (eth_dst e)
                  = Some P"
  shows "\<exists>w'. packet_in_handler m w = (None, w') \<and> emitted w w' \<noteq> [] \<and>
           (\<forall>x \<in> set (emitted w w'). msg_actions (snd x) = [OFPActionOutput P None])"
proof -
  obtain w' where w': "packet_in_handler m w = (None, w')"
    using packet_in_returns [OF eth, of w] by (cases "packet_in_handler m w") simp
  have "P = (case ((mac_table w (dp_id (pi_datapath m)))(eth_src e \<mapsto> pi_in_port m))
                            (eth_dst e) of Some p \<Rightarrow> p | None \<Rightarrow> OFPP_FLOOD)"
    by (simp add: known del: fun_upd_apply)
  from packet_in_sent [OF eth this] w'
  have "\<exists>xs. sent w' = sent w @ xs \<and> xs \<noteq> [] \<and>
          (\<forall>x \<in> set xs. msg_actions (snd x) = [OFPActionOutput P None])"
    by (simp add: msg_actions_def)
  then show ?thesis using w' by (auto simp: emitted_def)
qed

lemma rng_add_flow [simp]:
  "entropy (add_flow d p m a b w) = entropy w"
  "draws (add_flow d p m a b w) = (if truthy b then draws w else Suc (draws w))"
  by (simp_all add: add_flow_eq)

lemma rng_send_packet_out [simp]:
  "entropy (send_packet_out m p a w) = entropy w" "draws (send_packet_out m p a w) = draws w"
  by (simp_all add: send_packet_out_def send_msg_def Let_def)

lemma entropy_packet_in [simp]: "entropy (snd (packet_in_handler m w)) = entropy w"
  by (simp add: packet_in_handler_def Let_def split: list.split)

lemma draws_packet_in_flood:
  assumes eth: "pi_ethernet m = e # r"
    and unknown: "((mac_table w (dp_id (pi_datapath m)))(eth_src e \<mapsto> pi_in_port m)) (eth_dst e)
                    = None"
  shows "draws (snd (packet_in_handler m w)) = draws w"
  by (simp add: packet_in_handler_def Let_def eth mac_table_learn unknown del: fun_upd_apply)

lemma line_world_fields:
  "mac_table line_world k = Map.empty" "sent line_world = []" "draws line_world = 0"
  "entropy line_world 0 = 300"
  by (simp_all add: mac_table_def line_world_def)

lemma learnt_world_fields:
  "mac_table learnt_world 1 = [''00:00:00:00:00:01'' \<mapsto> 1]"
  "sent learnt_world =
     [(\<lparr>dp_id = 1\<rparr>, OFPPacketOut
         \<lparr>po_buffer_id = OFP_NO_BUFFER, po_in_port = 1,
          po_actions = [OFPActionOutput OFPP_FLOOD None], po_data = Some [1, 2, 3]\<rparr>)]"
  "entropy learnt_world 0 = 300" "draws learnt_world = 0"
proof -
  have eth: "pi_ethernet pkt_arp =
      [\<lparr>eth_dst = ''ff:ff:ff:ff:ff:ff'', eth_src = ''00:00:00:00:00:01''\<rparr>]"
    by (simp add: pkt_arp_def)
  show "mac_table learnt_world 1 = [''00:00:00:00:00:01'' \<mapsto> 1]"
    by (simp add: learnt_world_def mac_table_packet_in eth line_world_fields)
       (simp add: pkt_arp_def)
  have "sent learnt_world = sent line_world @
     [(\<lparr>dp_id = 1\<rparr>, OFPPacketOut
         \<lparr>po_buffer_id = OFP_NO_BUFFER, po_in_port = 1,
          po_actions = [OFPActionOutput OFPP_FLOOD None], po_data = Some [1, 2, 3]\<rparr>)]"
    unfolding learnt_world_def
    by (subst packet_in_sent [OF eth refl])
       (simp add: line_world_fields, simp add: pkt_arp_def)
  then show "sent learnt_world =
     [(\<lparr>dp_id = 1\<rparr>, OFPPacketOut
         \<lparr>po_buffer_id = OFP_NO_BUFFER, po_in_port = 1,
          po_actions = [OFPActionOutput OFPP_FLOOD None], po_data = Some [1, 2, 3]\<rparr>)]"
    by (simp add: line_world_fields)
  show "entropy learnt_world 0 = 300"
    by (simp add: learnt_world_def line_world_fields)
  have "draws learnt_world = draws line_world"
    unfolding learnt_world_def
    by (rule draws_packet_in_flood [OF eth]) (simp add: line_world_fields pkt_arp_def)
  then show "draws learnt_world = 0" by (simp add: line_world_fields)
qed

text \<open>
  Claim C7, as stated, at an input where it fails. No switch has learnt anything yet, so
  the destination of \<open>pkt_moved\<close> is not in the MAC table of switch 1 when the event
  arrives. The frame has that same address as its source and arrives at port 3. The
  handler enters the source before it looks the destination up, finds it, and sends a
  flow-mod that installs a reactive rule and a packet-out, both with the output to port 3:
  not the flood action, and a rule is installed.
\<close>

theorem self_addressed_frame_is_not_flooded:
  "mac_table line_world 1 ''00:00:00:00:00:01'' = None \<and>
   emitted line_world (snd (packet_in_handler pkt_moved line_world)) =
     [(\<lparr>dp_id = 1\<rparr>, OFPFlowMod
         \<lparr>fm_buffer_id = None, fm_priority = 1,
          fm_match = \<lparr>match_in_port = Some 3, match_eth_dst = Some ''00:00:00:00:00:01''\<rparr>,
          fm_instructions = [OFPInstructionActions OFPIT_APPLY_ACTIONS [OFPActionOutput 3 None]],
          fm_cookie = Some 44\<rparr>),
      (\<lparr>dp_id = 1\<rparr>, OFPPacketOut
         \<lparr>po_buffer_id = OFP_NO_BUFFER, po_in_port = 3,
          po_actions = [OFPActionOutput 3 None], po_data = Some [4, 5, 6]\<rparr>)]"
proof -
  have eth: "pi_ethernet pkt_moved =
      [\<lparr>eth_dst = ''00:00:00:00:00:01'', eth_src = ''00:00:00:00:00:01''\<rparr>]"
    by (simp add: pkt_moved_def)
  have out: "3 = (case ((mac_table line_world (dp_id (pi_datapath pkt_moved)))
                 (eth_src \<lparr>eth_dst = ''00:00:00:00:00:01'', eth_src = ''00:00:00:00:00:01''\<rparr>
                    \<mapsto> pi_in_port pkt_moved))
               (eth_dst \<lparr>eth_dst = ''00:00:00:00:00:01'', eth_src = ''00:00:00:00:00:01''\<rparr>) of
             Some p \<Rightarrow> p | None \<Rightarrow> OFPP_FLOOD)"
    by (simp add: pkt_moved_def)
  have "emitted line_world (snd (packet_in_handler pkt_moved line_world)) =
     [(\<lparr>dp_id = 1\<rparr>, OFPFlowMod
         \<lparr>fm_buffer_id = None, fm_priority = 1,
          fm_match = \<lparr>match_in_port = Some 3, match_eth_dst = Some ''00:00:00:00:00:01''\<rparr>,
          fm_instructions = [OFPInstructionActions OFPIT_APPLY_ACTIONS [OFPActionOutput 3 None]],
          fm_cookie = Some 44\<rparr>),
      (\<lparr>dp_id = 1\<rparr>, OFPPacketOut
         \<lparr>po_buffer_id = OFP_NO_BUFFER, po_in_port = 3,
          po_actions = [OFPActionOutput 3 None], po_data = Some [4, 5, 6]\<rparr>)]"
    unfolding emitted_def
    by (subst packet_in_sent [OF eth out])
       (simp add: pkt_moved_def OFPP_FLOOD_def OFP_NO_BUFFER_def line_world_fields)
  then show ?thesis by (simp add: line_world_fields)
qed

text \<open>
  Claim C7, amended. A packet-in event is handled whose frame has an Ethernet header,
  whose destination address is not in the MAC table of the handling switch when the
  event arrives, and whose destination address is not the source address of the frame
  itself. Then the handler returns normally and sends exactly one message: a packet-out
  whose only action is the output to \<open>OFPP_FLOOD\<close>, with the buffer reference of the
  event and, when the event has no buffer, the bytes of the frame. No flow-mod is sent,
  so no reactive rule is installed.
\<close>

theorem unknown_destination_floods:
  assumes eth: "pi_ethernet msg = eth # rest"
    and unknown: "eth_dst eth \<notin> dom (mac_table w (dp_id (pi_datapath msg)))"
    and other: "eth_dst eth \<noteq> eth_src eth"
  shows "\<exists>w'. packet_in_handler msg w = (None, w') \<and>
           sent w' = sent w @
             [(pi_datapath msg, OFPPacketOut
                 \<lparr>po_buffer_id = pi_buffer_id msg, po_in_port = pi_in_port msg,
                  po_actions = [OFPActionOutput OFPP_FLOOD None],
                  po_data = (if pi_buffer_id msg = OFP_NO_BUFFER
                             then Some (pi_data msg) else None)\<rparr>)]"
proof -
  from unknown other
  have none: "((mac_table w (dp_id (pi_datapath msg)))(eth_src eth \<mapsto> pi_in_port msg))
                (eth_dst eth) = None"
    by (simp add: domIff)
  show ?thesis
    by (simp add: packet_in_handler_def Let_def eth mac_table_learn none sent_send_packet_out
          del: fun_upd_apply)
qed

theorem unknown_destination_floods_witness:
  "\<exists>w'. packet_in_handler pkt_other learnt_world = (None, w') \<and>
     sent w' = sent learnt_world @
       [(\<lparr>dp_id = 1\<rparr>, OFPPacketOut
           \<lparr>po_buffer_id = 0xffffffff, po_in_port = 2,
            po_actions = [OFPActionOutput 0xfffffffb None], po_data = Some [7, 8, 9]\<rparr>)]"
proof -
  have eth: "pi_ethernet pkt_other =
      \<lparr>eth_dst = ''ff:ff:ff:ff:ff:ff'', eth_src = ''00:00:00:00:00:03''\<rparr> # []"
    by (simp add: pkt_other_def)
  have unknown: "eth_dst \<lparr>eth_dst = ''ff:ff:ff:ff:ff:ff'', eth_src = ''00:00:00:00:00:03''\<rparr>
      \<notin> dom (mac_table learnt_world (dp_id (pi_datapath pkt_other)))"
    by (simp add: pkt_other_def learnt_world_fields)
  have other: "eth_dst \<lparr>eth_dst = ''ff:ff:ff:ff:ff:ff'', eth_src = ''00:00:00:00:00:03''\<rparr>
      \<noteq> eth_src \<lparr>eth_dst = ''ff:ff:ff:ff:ff:ff'', eth_src = ''00:00:00:00:00:03''\<rparr>"
    by simp
  from unknown_destination_floods [OF eth unknown other] show ?thesis
    by (simp add: pkt_other_def OFP_NO_BUFFER_def OFPP_FLOOD_def)
qed

text \<open>
  Claim C5, as stated, at an input where it fails. Switch 1 has learnt the address of
  host 1 at port 1 from \<open>pkt_arp\<close>. The next frame at switch 1 has that address as its
  destination and also as its source, and arrives at port 3. The handler enters the source
  before it looks the destination up, so the flow-mod and the packet-out it sends output
  to port 3, not to port 1.
\<close>

theorem relearnt_source_changes_port:
  "mac_table (handle_packets [pkt_arp] line_world) 1 ''00:00:00:00:00:01'' = Some 1 \<and>
   map (\<lambda>x. msg_actions (snd x))
     (emitted (handle_packets [pkt_arp] line_world)
        (snd (packet_in_handler pkt_moved (handle_packets [pkt_arp] line_world)))) =
     [[OFPActionOutput 3 None], [OFPActionOutput 3 None]]"
proof -
  have eth: "pi_ethernet pkt_moved =
      [\<lparr>eth_dst = ''00:00:00:00:00:01'', eth_src = ''00:00:00:00:00:01''\<rparr>]"
    by (simp add: pkt_moved_def)
  have w: "handle_packets [pkt_arp] line_world = learnt_world"
    by (simp add: learnt_world_def)
  have out: "3 = (case ((mac_table learnt_world (dp_id (pi_datapath pkt_moved)))
                 (eth_src \<lparr>eth_dst = ''00:00:00:00:00:01'', eth_src = ''00:00:00:00:00:01''\<rparr>
                    \<mapsto> pi_in_port pkt_moved))
               (eth_dst \<lparr>eth_dst = ''00:00:00:00:00:01'', eth_src = ''00:00:00:00:00:01''\<rparr>) of
             Some p \<Rightarrow> p | None \<Rightarrow> OFPP_FLOOD)"
    by (simp add: pkt_moved_def)
  have "map (\<lambda>x. msg_actions (snd x))
          (emitted learnt_world (snd (packet_in_handler pkt_moved learnt_world))) =
        [[OFPActionOutput 3 None], [OFPActionOutput 3 None]]"
    unfolding emitted_def
    by (subst packet_in_sent [OF eth out])
       (simp add: msg_actions_def pkt_moved_def OFPP_FLOOD_def)
  then show ?thesis
    unfolding w by (simp add: learnt_world_fields)
qed

text \<open>
  Claim C5, amended. A packet-in event \<open>m1\<close> with source address \<open>S\<close> at port \<open>P\<close> of
  switch \<open>K\<close> is handled; then any events \<open>ms\<close>, of which those at switch \<open>K\<close> have a
  source other than \<open>S\<close>; then an event \<open>m2\<close> at switch \<open>K\<close> with destination \<open>S\<close>
  whose own source is not \<open>S\<close>, unless it arrives at port \<open>P\<close> itself. Then the
  handler of \<open>m2\<close> returns normally, sends at least one message, and every message it
  sends carries the single action "output to port \<open>P\<close>". That is not the flood action,
  \<open>P\<close> being the number of a port a frame arrived at and not the reserved number
  \<open>OFPP_FLOOD\<close>.
\<close>

theorem learnt_mac_gets_unicast:
  assumes first: "pi_ethernet m1 = e1 # r1" "eth_src e1 = S" "pi_in_port m1 = P"
      "dp_id (pi_datapath m1) = K"
    and between: "\<forall>m \<in> set ms. \<forall>e r. dp_id (pi_datapath m) = K \<and> pi_ethernet m = e # r
                    \<longrightarrow> eth_src e \<noteq> S"
    and later: "pi_ethernet m2 = e2 # r2" "eth_dst e2 = S" "dp_id (pi_datapath m2) = K"
    and own_source: "eth_src e2 \<noteq> S \<or> pi_in_port m2 = P"
  shows "\<exists>w'. packet_in_handler m2 (handle_packets (m1 # ms) w) = (None, w') \<and>
           emitted (handle_packets (m1 # ms) w) w' \<noteq> [] \<and>
           (\<forall>x \<in> set (emitted (handle_packets (m1 # ms) w) w').
              msg_actions (snd x) = [OFPActionOutput P None] \<and>
              (P \<noteq> OFPP_FLOOD \<longrightarrow> msg_actions (snd x) \<noteq> [OFPActionOutput OFPP_FLOOD None]))"
proof -
  let ?w1 = "snd (packet_in_handler m1 w)"
  have "mac_table ?w1 K S = Some P"
    using first by (simp add: mac_table_packet_in)
  then have kept: "mac_table (handle_packets ms ?w1) K S = Some P"
    using between by (rule learnt_port_kept)
  have "((mac_table (handle_packets (m1 # ms) w) (dp_id (pi_datapath m2)))
            (eth_src e2 \<mapsto> pi_in_port m2)) (eth_dst e2) = Some P"
    using kept later own_source by auto
  from packet_in_known_destination [OF later(1) this] show ?thesis
    by auto
qed

theorem learnt_mac_gets_unicast_witness:
  "\<exists>w'. packet_in_handler pkt_reply (handle_packets [pkt_arp, pkt_other] line_world) = (None, w') \<and>
     emitted (handle_packets [pkt_arp, pkt_other] line_world) w' \<noteq> [] \<and>
     (\<forall>x \<in> set (emitted (handle_packets [pkt_arp, pkt_other] line_world) w').
        msg_actions (snd x) = [OFPActionOutput 1 None] \<and>
        msg_actions (snd x) \<noteq> [OFPActionOutput OFPP_FLOOD None])"
proof -
  have first: "pi_ethernet pkt_arp =
      \<lparr>eth_dst = ''ff:ff:ff:ff:ff:ff'', eth_src = ''00:00:00:00:00:01''\<rparr> # []"
    "eth_src \<lparr>eth_dst = ''ff:ff:ff:ff:ff:ff'', eth_src = ''00:00:00:00:00:01''\<rparr>
       = ''00:00:00:00:00:01''"
    "pi_in_port pkt_arp = 1" "dp_id (pi_datapath pkt_arp) = 1"
    by (simp_all add: pkt_arp_def)
  have between: "\<forall>m \<in> set [pkt_other]. \<forall>e r. dp_id (pi_datapath m) = 1 \<and> pi_ethernet m = e # r
                    \<longrightarrow> eth_src e \<noteq> ''00:00:00:00:00:01''"
    by (auto simp: pkt_other_def)
  have later: "pi_ethernet pkt_reply =
      \<lparr>eth_dst = ''00:00:00:00:00:01'', eth_src = ''00:00:00:00:00:02''\<rparr> # []"
    "eth_dst \<lparr>eth_dst = ''00:00:00:00:00:01'', eth_src = ''00:00:00:00:00:02''\<rparr>
       = ''00:00:00:00:00:01''"
    "dp_id (pi_datapath pkt_reply) = 1"
    by (simp_all add: pkt_reply_def)
  have own_source: "eth_src \<lparr>eth_dst = ''00:00:00:00:00:01'', eth_src = ''00:00:00:00:00:02''\<rparr>
       \<noteq> ''00:00:00:00:00:01'' \<or> pi_in_port pkt_reply = 1"
    by simp
  have port: "(1::int) \<noteq> OFPP_FLOOD" by (simp add: OFPP_FLOOD_def)
  from learnt_mac_gets_unicast [OF first between later own_source, of line_world] port
  show ?thesis by simp
qed

text \<open>
  Claim C2, at the input where the code departs from it. Switch 1 has learnt host 1 at
  port 1. The answer of host 2 to host 1 comes in with the buffer reference 0: the
  destination is known and the frame is buffered by the switch. The handler takes the
  branch for a valid buffer (0 is not \<open>OFP_NO_BUFFER\<close>), calls \<open>add_flow\<close> and returns
  without a packet-out; \<open>add_flow\<close> takes 0 for "no buffer" and sends the flow-mod
  without the buffer reference. The one message sent is that flow-mod: no packet-out, and
  no rule-install that carries the buffer of the frame, so the number of forwarding
  decisions that reach the wire is 0.
\<close>

theorem packet_in_buffer_zero_neither:
  "packet_in_handler pkt_reply_buffered learnt_world =
     (None, snd (packet_in_handler pkt_reply_buffered learnt_world)) \<and>
   emitted learnt_world (snd (packet_in_handler pkt_reply_buffered learnt_world)) =
     [(\<lparr>dp_id = 1\<rparr>, OFPFlowMod
         \<lparr>fm_buffer_id = None, fm_priority = 1,
          fm_match = \<lparr>match_in_port = Some 2, match_eth_dst = Some ''00:00:00:00:00:01''\<rparr>,
          fm_instructions = [OFPInstructionActions OFPIT_APPLY_ACTIONS [OFPActionOutput 1 None]],
          fm_cookie = Some 44\<rparr>)] \<and>
   length (filter is_packet_out
     (emitted learnt_world (snd (packet_in_handler pkt_reply_buffered learnt_world)))) +
   length (filter (resolves_buffer (pi_buffer_id pkt_reply_buffered))
     (emitted learnt_world (snd (packet_in_handler pkt_reply_buffered learnt_world)))) = 0"
proof -
  have eth: "pi_ethernet pkt_reply_buffered =
      [\<lparr>eth_dst = ''00:00:00:00:00:01'', eth_src = ''00:00:00:00:00:02''\<rparr>]"
    by (simp add: pkt_reply_buffered_def pkt_reply_def)
  have out: "1 = (case ((mac_table learnt_world (dp_id (pi_datapath pkt_reply_buffered)))
                 (eth_src \<lparr>eth_dst = ''00:00:00:00:00:01'', eth_src = ''00:00:00:00:00:02''\<rparr>
                    \<mapsto> pi_in_port pkt_reply_buffered))
               (eth_dst \<lparr>eth_dst = ''00:00:00:00:00:01'', eth_src = ''00:00:00:00:00:02''\<rparr>) of
             Some p \<Rightarrow> p | None \<Rightarrow> OFPP_FLOOD)"
    by (simp add: pkt_reply_buffered_def pkt_reply_def learnt_world_fields)
  have "fst (packet_in_handler pkt_reply_buffered learnt_world) = None"
    by (rule packet_in_returns [OF eth])
  then have ret: "packet_in_handler pkt_reply_buffered learnt_world =
     (None, snd (packet_in_handler pkt_reply_buffered learnt_world))"
    by (cases "packet_in_handler pkt_reply_buffered learnt_world") simp
  have em: "emitted learnt_world (snd (packet_in_handler pkt_reply_buffered learnt_world)) =
     [(\<lparr>dp_id = 1\<rparr>, OFPFlowMod
         \<lparr>fm_buffer_id = None, fm_priority = 1,
          fm_match = \<lparr>match_in_port = Some 2, match_eth_dst = Some ''00:00:00:00:00:01''\<rparr>,
          fm_instructions = [OFPInstructionActions OFPIT_APPLY_ACTIONS [OFPActionOutput 1 None]],
          fm_cookie = Some 44\<rparr>)]"
    unfolding emitted_def
    by (subst packet_in_sent [OF eth out])
       (simp add: pkt_reply_buffered_def pkt_reply_def OFPP_FLOOD_def OFP_NO_BUFFER_def
          learnt_world_fields)
  have "length (filter is_packet_out
     (emitted learnt_world (snd (packet_in_handler pkt_reply_buffered learnt_world)))) +
   length (filter (resolves_buffer (pi_buffer_id pkt_reply_buffered))
     (emitted learnt_world (snd (packet_in_handler pkt_reply_buffered learnt_world)))) = 0"
    unfolding em by (simp add: is_packet_out_def resolves_buffer_def)
  with ret em show ?thesis by simp
qed

section \<open>The convergence wait\<close>

lemma poll_again:
  "poll_discovery (emit l (sleep t (poll_discovery v))) =
     poll_discovery (v\<lparr>polls := Suc (polls v), slept := slept v @ [t], console := console v @ [l]\<rparr>)"
  by (simp add: poll_discovery_def emit_def sleep_def get_switch_def get_link_def get_host_def)

lemma wait_loop_converges:
  "polls v + d = k \<Longrightarrow> balanced (discovery v k) \<Longrightarrow>
     \<exists>n. polls v \<le> n \<and> n \<le> k \<and> (\<forall>j. polls v \<le> j \<and> j < n \<longrightarrow> \<not> balanced (discovery v j)) \<and>
         balanced (discovery v n) \<and> wait_loop (poll_discovery v) = Some (converged v n)"
proof (induction d arbitrary: v)
  case 0
  then have "polls v = k" by simp
  with 0 have bal: "balanced (discovery v (polls v))" by simp
  have "wait_loop (poll_discovery v) = Some (poll_discovery v)"
    using bal
    by (subst wait_loop.simps)
       (simp add: poll_discovery_def balanced_def get_switch_def get_host_def)
  moreover have "poll_discovery v = converged v (polls v)"
    by (simp add: poll_discovery_def converged_def get_switch_def get_link_def get_host_def)
  ultimately show ?case using bal \<open>polls v = k\<close> by (intro exI [of _ "polls v"]) auto
next
  case (Suc d)
  show ?case
  proof (cases "balanced (discovery v (polls v))")
    case True
    have "wait_loop (poll_discovery v) = Some (poll_discovery v)"
      using True
      by (subst wait_loop.simps)
         (simp add: poll_discovery_def balanced_def get_switch_def get_host_def)
    moreover have "poll_discovery v = converged v (polls v)"
      by (simp add: poll_discovery_def converged_def get_switch_def get_link_def get_host_def)
    ultimately show ?thesis using True Suc.prems by (intro exI [of _ "polls v"]) auto
  next
    case False
    let ?v' = "v\<lparr>polls := Suc (polls v), slept := slept v @ [5 / 100],
                 console := console v @ [Print (CHR 0x0D # ''Loading....'')]\<rparr>"
    have step: "wait_loop (poll_discovery v) = wait_loop (poll_discovery ?v')"
      using False
      by (subst wait_loop.simps)
         (simp add: poll_again,
          simp add: poll_discovery_def balanced_def get_switch_def get_host_def)
    have "polls ?v' + d = k" using Suc.prems by simp
    moreover have "balanced (discovery ?v' k)" using Suc.prems by simp
    ultimately obtain n where n: "polls ?v' \<le> n" "n \<le> k"
        "\<forall>j. polls ?v' \<le> j \<and> j < n \<longrightarrow> \<not> balanced (discovery ?v' j)"
        "balanced (discovery ?v' n)"
        "wait_loop (poll_discovery ?v') = Some (converged ?v' n)"
      using Suc.IH [of ?v'] by blast
    have least: "\<forall>j. polls v \<le> j \<and> j < n \<longrightarrow> \<not> balanced (discovery v j)"
    proof (intro allI impI)
      fix j assume j: "polls v \<le> j \<and> j < n"
      show "\<not> balanced (discovery v j)"
      proof (cases "j = polls v")
        case True
        with False show ?thesis by simp
      next
        case False
        with j have "polls ?v' \<le> j \<and> j < n" by simp
        with n(3) show ?thesis by simp
      qed
    qed
    have "Suc (n - Suc (polls v)) = n - polls v" using n(1) by simp
    then have rep: "\<And>x::'a. x # replicate (n - Suc (polls v)) x = replicate (n - polls v) x"
      by (metis replicate_Suc)
    have "converged ?v' n = converged v n"
      by (simp add: converged_def rep)
    with n step least show ?thesis
      by (intro exI [of _ n]) simp
  qed
qed

lemma wait_loop_sent:
  assumes run: "wait_loop v = Some v'"
  shows "sent v' = sent v"
proof (rule wait_loop.raw_induct [where P = "\<lambda>x y. sent y = sent x", OF _ run])
  fix f :: "world \<Rightarrow> world option" and x y
  assume IH: "\<And>x y. f x = Some y \<Longrightarrow> sent y = sent x"
    and body: "(if length (switches x) \<noteq> length (hosts x)
                then f (poll_discovery (emit (Print (CHR 0x0D # ''Loading....''))
                          (sleep (5 / 100) x)))
                else Some x) = Some y"
  show "sent y = sent x"
  proof (cases "length (switches x) \<noteq> length (hosts x)")
    case True
    with body have "f (poll_discovery (emit (Print (CHR 0x0D # ''Loading....''))
                          (sleep (5 / 100) x))) = Some y"
      by simp
    from IH [OF this] show ?thesis
      by (simp add: poll_discovery_def emit_def sleep_def)
  next
    case False
    with body show ?thesis by simp
  qed
qed

lemma get_topology_sent: "get_topology v = Some v' \<Longrightarrow> sent v' = sent v"
  by (auto simp: get_topology_def poll_discovery_def dest: wait_loop_sent)

text \<open>The wait returns only in a state whose switches and hosts are equal in number.\<close>

lemma wait_loop_balanced:
  assumes run: "wait_loop v = Some v'"
  shows "length (switches v') = length (hosts v')"
proof (rule wait_loop.raw_induct
    [where P = "\<lambda>x y. length (switches y) = length (hosts y)", OF _ run])
  fix f :: "world \<Rightarrow> world option" and x y
  assume IH: "\<And>x y. f x = Some y \<Longrightarrow> length (switches y) = length (hosts y)"
    and body: "(if length (switches x) \<noteq> length (hosts x)
                then f (poll_discovery (emit (Print (CHR 0x0D # ''Loading....''))
                          (sleep (5 / 100) x)))
                else Some x) = Some y"
  show "length (switches y) = length (hosts y)"
    using IH body by (auto split: if_splits)
qed

text \<open>
  Claim C6. The discovery service answers round \<open>k\<close>, not before the rounds already
  made, with as many switches as hosts. Then \<open>get_topology\<close> returns. It returns at the
  first such round \<open>n\<close>: the topology store holds the switches, links and hosts of
  that round, and for each earlier round, whose numbers differ, the wait has slept once
  for 0.05 seconds and printed one line. Nothing else has changed.
\<close>

theorem get_topology_terminates:
  assumes "polls w \<le> k" and "balanced (discovery w k)"
  shows "\<exists>n. polls w \<le> n \<and> n \<le> k \<and>
           (\<forall>j. polls w \<le> j \<and> j < n \<longrightarrow> \<not> balanced (discovery w j)) \<and>
           balanced (discovery w n) \<and> get_topology w = Some (converged w n)"
proof -
  from assms(1) have "polls w + (k - polls w) = k" by simp
  from wait_loop_converges [OF this assms(2)] show ?thesis
    by (simp add: get_topology_def)
qed

theorem get_topology_terminates_witness:
  "get_topology slow_world = Some (converged slow_world 2) \<and>
   switches (converged slow_world 2) = [line_sw1, line_sw2, spare_sw4, line_sw3] \<and>
   links (converged slow_world 2) = line_links \<and>
   hosts (converged slow_world 2) = line_hosts \<and>
   slept (converged slow_world 2) = [5 / 100, 5 / 100]"
proof -
  have p: "polls slow_world \<le> 5" by (simp add: slow_world_def line_world_def)
  have b: "balanced (discovery slow_world 5)"
    by (simp add: slow_world_def balanced_def line_hosts_def)
  from get_topology_terminates [OF p b]
  obtain n where n: "\<forall>j. polls slow_world \<le> j \<and> j < n \<longrightarrow> \<not> balanced (discovery slow_world j)"
      "balanced (discovery slow_world n)" "get_topology slow_world = Some (converged slow_world n)"
    by blast
  have b2: "balanced (discovery slow_world 2)"
    by (simp add: slow_world_def balanced_def line_hosts_def)
  have "\<not> balanced (discovery slow_world 0)" "\<not> balanced (discovery slow_world 1)"
    by (simp_all add: slow_world_def balanced_def line_hosts_def)
  with n(2) have "n \<noteq> 0" "n \<noteq> 1" by (metis, metis)
  moreover have "\<not> 2 < n"
    using n(1) b2 by (auto simp: slow_world_def line_world_def)
  ultimately have "n = 2" by arith
  with n(3) show ?thesis
    by (simp add: converged_def slow_world_def line_world_def numeral_2_eq_2)
qed

section \<open>The path programming\<close>

lemma py_index_Some: "py_index xs x = Some i \<Longrightarrow> i < length xs \<and> xs ! i = x"
  by (induction xs arbitrary: i) (auto split: if_splits option.splits)

lemma py_index_None: "py_index xs x = None \<longleftrightarrow> x \<notin> set xs"
  by (induction xs) (auto split: option.splits)

lemma program_switch_off_path:
  assumes "py_int (sw_dpid s) = Some d" and "d - 1 \<notin> set (switch_path g)"
  shows "program_switch g len s w = (None, w)"
  using assms by (simp add: program_switch_def)

lemma program_switch_on_path:
  assumes d: "py_int (sw_dpid s) = Some d"
    and i: "py_index (switch_path g) (d - 1) = Some i"
    and a: "path_ingress g i = Some a"
    and b: "path_egress g i = Some b"
  shows "\<exists>w'. program_switch g (length (switch_path g)) s w = (None, w') \<and>
           (\<exists>xs. sent w' = sent w @ xs \<and>
              map without_cookie xs = [(sw_dp s, path_rule a b), (sw_dp s, path_rule b a)])"
proof -
  from i have mem: "d - 1 \<in> set (switch_path g)"
    using py_index_None [of "switch_path g" "d - 1"] by simp
  from i have lt: "i < length (switch_path g)" by (simp add: py_index_Some)
  have eg: "(int i = int (length (switch_path g)) - 1) = (Suc i = length (switch_path g))"
    using lt by auto
  have a': "(if i = 0 then Some 1 else ports_at g (d - 1) (switch_path g ! (i - 1))) = Some a"
    using a py_index_Some [OF i] by (auto simp: path_ingress_def split: if_splits)
  have b': "(if Suc i = length (switch_path g) then Some 1
             else ports_at g (d - 1) (switch_path g ! (i + 1))) = Some b"
    using b py_index_Some [OF i] by (auto simp: path_egress_def split: if_splits)
  show ?thesis
    by (simp add: program_switch_def d mem i eg a' b' Let_def add_flow_eq truthy_def
          emit_def without_cookie_def path_rule_def del: One_nat_def)
qed

lemma program_switch_sent:
  "\<exists>xs. sent (snd (program_switch g len s w)) = sent w @ xs \<and>
     (\<forall>x \<in> set xs. \<exists>fm. x = (sw_dp s, OFPFlowMod fm) \<and> fm_priority fm = 200) \<and>
     (xs \<noteq> [] \<longrightarrow> (\<exists>x \<in> set (switch_path g). src_id s = Some x))"
  by (auto simp add: program_switch_def Let_def add_flow_eq truthy_def emit_def src_id_def
        split: option.splits)

lemma program_switches_sent:
  "\<exists>xs. sent (snd (program_switches g len sws w)) = sent w @ xs \<and>
     (\<forall>x \<in> set xs. \<exists>s fm. s \<in> set sws \<and> (\<exists>y \<in> set (switch_path g). src_id s = Some y) \<and>
         x = (sw_dp s, OFPFlowMod fm) \<and> fm_priority fm = 200)"
proof (induction sws arbitrary: w)
  case Nil
  show ?case by simp
next
  case (Cons s sws)
  obtain r w1 where step: "program_switch g len s w = (r, w1)"
    by (cases "program_switch g len s w")
  from program_switch_sent [of g len s w] step
  obtain xs where xs: "sent w1 = sent w @ xs"
      "\<forall>x \<in> set xs. \<exists>fm. x = (sw_dp s, OFPFlowMod fm) \<and> fm_priority fm = 200"
      "xs \<noteq> [] \<longrightarrow> (\<exists>x \<in> set (switch_path g). src_id s = Some x)"
    by auto
  have xs': "\<forall>x \<in> set xs. \<exists>t fm. t \<in> set (s # sws) \<and>
      (\<exists>y \<in> set (switch_path g). src_id t = Some y) \<and> x = (sw_dp t, OFPFlowMod fm) \<and>
      fm_priority fm = 200"
  proof
    fix x assume x: "x \<in> set xs"
    then have "xs \<noteq> []" by auto
    with xs(3) have "\<exists>y \<in> set (switch_path g). src_id s = Some y" by simp
    moreover from xs(2) x obtain fm where "x = (sw_dp s, OFPFlowMod fm)" "fm_priority fm = 200"
      by auto
    ultimately show "\<exists>t fm. t \<in> set (s # sws) \<and>
      (\<exists>y \<in> set (switch_path g). src_id t = Some y) \<and> x = (sw_dp t, OFPFlowMod fm) \<and>
      fm_priority fm = 200" by auto
  qed
  show ?case
  proof (cases r)
    case (Some e)
    with step xs(1) xs' show ?thesis by simp
  next
    case None
    from Cons.IH [of w1] obtain ys where ys: "sent (snd (program_switches g len sws w1)) = sent w1 @ ys"
      "\<forall>x \<in> set ys. \<exists>s fm. s \<in> set sws \<and> (\<exists>y \<in> set (switch_path g). src_id s = Some y) \<and>
         x = (sw_dp s, OFPFlowMod fm) \<and> fm_priority fm = 200"
      by blast
    have "sent (snd (program_switches g len (s # sws) w)) = sent w @ (xs @ ys)"
      using step None xs(1) ys(1) by simp
    moreover have "\<forall>x \<in> set (xs @ ys). \<exists>t fm. t \<in> set (s # sws) \<and>
      (\<exists>y \<in> set (switch_path g). src_id t = Some y) \<and> x = (sw_dp t, OFPFlowMod fm) \<and>
      fm_priority fm = 200"
      using xs' ys(2) by simp blast
    ultimately show ?thesis by blast
  qed
qed

lemma handler_switch_event_eq:
  assumes topo: "get_topology (emit (PrintNoNewline ''New Switch'') w) = Some w1"
    and gr: "Graph (switches w1) (hosts w1) (links w1) = Inr g"
  shows "\<exists>w6. sent w6 = sent w \<and>
           handler_switch_event Graph ev w =
             Some (program_switches g (length (switch_path g)) (switches w1) w6)"
proof -
  have "sent w1 = sent w" using get_topology_sent [OF topo] by simp
  then show ?thesis
    apply (simp add: handler_switch_event_def topo Let_def gr)
    apply (rule exI, rule conjI)
     prefer 2
     apply (rule refl)
    apply simp
    done
qed

lemma handler_switch_event_sent:
  assumes "handler_switch_event Graph ev w = Some (r, w')"
  shows "\<exists>xs. sent w' = sent w @ xs \<and>
           (\<forall>x \<in> set xs. \<exists>dp fm. x = (dp, OFPFlowMod fm) \<and> fm_priority fm = 200)"
proof (cases "get_topology (emit (PrintNoNewline ''New Switch'') w)")
  case None
  with assms show ?thesis by (simp add: handler_switch_event_def)
next
  case (Some w1)
  then have s1: "sent w1 = sent w" using get_topology_sent [OF Some] by simp
  show ?thesis
  proof (cases "Graph (switches w1) (hosts w1) (links w1)")
    case (Inl e)
    with assms Some s1 show ?thesis
      by (auto simp add: handler_switch_event_def Let_def)
  next
    case (Inr g)
    from handler_switch_event_eq [of w w1 Graph g ev, OF Some Inr] assms
    obtain w6 where w6: "sent w6 = sent w"
        "program_switches g (length (switch_path g)) (switches w1) w6 = (r, w')"
      by auto
    from program_switches_sent [of g "length (switch_path g)" "switches w1" w6] w6
    obtain xs where xs: "sent w' = sent w @ xs"
        "\<forall>x \<in> set xs. \<exists>s fm. s \<in> set (switches w1) \<and>
           (\<exists>y \<in> set (switch_path g). src_id s = Some y) \<and>
           x = (sw_dp s, OFPFlowMod fm) \<and> fm_priority fm = 200"
      by auto
    from xs(2) have "\<forall>x \<in> set xs. \<exists>dp fm. x = (dp, OFPFlowMod fm) \<and> fm_priority fm = 200"
      by blast
    with xs(1) show ?thesis by blast
  qed
qed

lemma rule_pair_off_path:
  "py_int (sw_dpid s) = Some d \<Longrightarrow> d - 1 \<notin> set (switch_path g) \<Longrightarrow> rule_pair g s = []"
  using py_index_None [of "switch_path g" "d - 1"] by (simp add: rule_pair_def src_id_def)

lemma program_switches_ok:
  assumes "\<forall>s \<in> set sws. py_int (sw_dpid s) \<noteq> None"
    and ports: "\<forall>i < length (switch_path g). path_ingress g i \<noteq> None \<and> path_egress g i \<noteq> None"
  shows "\<exists>w' xs. program_switches g (length (switch_path g)) sws w = (None, w') \<and>
           sent w' = sent w @ xs \<and> map without_cookie xs = concat (map (rule_pair g) sws)"
  using assms(1)
proof (induction sws arbitrary: w)
  case Nil
  show ?case by simp
next
  case (Cons s sws)
  then obtain d where d: "py_int (sw_dpid s) = Some d" by auto
  have "\<exists>w1 xs. program_switch g (length (switch_path g)) s w = (None, w1) \<and>
          sent w1 = sent w @ xs \<and> map without_cookie xs = rule_pair g s"
  proof (cases "d - 1 \<in> set (switch_path g)")
    case False
    with d show ?thesis
      by (simp add: program_switch_off_path rule_pair_off_path)
  next
    case True
    then obtain i where i: "py_index (switch_path g) (d - 1) = Some i"
      using py_index_None [of "switch_path g" "d - 1"] by auto
    then have "i < length (switch_path g)" by (simp add: py_index_Some)
    with ports obtain a b where ab: "path_ingress g i = Some a" "path_egress g i = Some b"
      by auto
    have "rule_pair g s = [(sw_dp s, path_rule a b), (sw_dp s, path_rule b a)]"
      by (simp add: rule_pair_def src_id_def d i ab)
    with program_switch_on_path [OF d i ab, of w] show ?thesis by auto
  qed
  then obtain w1 xs where step: "program_switch g (length (switch_path g)) s w = (None, w1)"
      "sent w1 = sent w @ xs" "map without_cookie xs = rule_pair g s"
    by blast
  from Cons.IH [of w1] Cons.prems
  obtain w' ys where rest: "program_switches g (length (switch_path g)) sws w1 = (None, w')"
      "sent w' = sent w1 @ ys" "map without_cookie ys = concat (map (rule_pair g) sws)"
    by auto
  have "program_switches g (length (switch_path g)) (s # sws) w = (None, w')"
    using step(1) rest(1) by simp
  moreover have "sent w' = sent w @ (xs @ ys)" using step(2) rest(2) by simp
  moreover have "map without_cookie (xs @ ys) = concat (map (rule_pair g) (s # sws))"
    using step(3) rest(3) by simp
  ultimately show ?case by blast
qed

lemma length_rule_pair:
  assumes "\<forall>i < length (switch_path g). path_ingress g i \<noteq> None \<and> path_egress g i \<noteq> None"
  shows "length (rule_pair g s) =
           (if \<exists>x \<in> set (switch_path g). src_id s = Some x then 2 else 0)"
proof (cases "src_id s")
  case None
  then show ?thesis by (simp add: rule_pair_def)
next
  case (Some x)
  show ?thesis
  proof (cases "py_index (switch_path g) x")
    case None
    then have "x \<notin> set (switch_path g)" by (simp add: py_index_None)
    with Some None show ?thesis by (simp add: rule_pair_def)
  next
    case (Some i)
    then have i: "i < length (switch_path g)" "switch_path g ! i = x" by (simp_all add: py_index_Some)
    then have "x \<in> set (switch_path g)" by auto
    moreover from assms i obtain a b where "path_ingress g i = Some a" "path_egress g i = Some b"
      by auto
    ultimately show ?thesis using \<open>src_id s = Some x\<close> Some by (simp add: rule_pair_def)
  qed
qed

lemma length_rule_pairs:
  assumes "\<forall>i < length (switch_path g). path_ingress g i \<noteq> None \<and> path_egress g i \<noteq> None"
  shows "length (concat (map (rule_pair g) sws)) =
           2 * length (filter (\<lambda>s. \<exists>x \<in> set (switch_path g). src_id s = Some x) sws)"
  by (induction sws) (simp_all add: length_rule_pair [OF assms])

lemma on_path_count:
  assumes ids: "distinct (map src_id sws)"
    and path: "distinct p"
    and reported: "\<forall>x \<in> set p. \<exists>s \<in> set sws. src_id s = Some x"
  shows "length (filter (\<lambda>s. \<exists>x \<in> set p. src_id s = Some x) sws) = length p"
proof -
  let ?F = "filter (\<lambda>s. \<exists>x \<in> set p. src_id s = Some x) sws"
  have "distinct (map src_id ?F)" using ids by (rule distinct_map_filter)
  then have "length ?F = card (set (map src_id ?F))"
    using distinct_card [of "map src_id ?F"] by simp
  also have "set (map src_id ?F) = Some ` set p"
  proof
    show "set (map src_id ?F) \<subseteq> Some ` set p" by auto
    show "Some ` set p \<subseteq> set (map src_id ?F)"
    proof
      fix y assume "y \<in> Some ` set p"
      then obtain x where x: "x \<in> set p" "y = Some x" by auto
      with reported obtain s where "s \<in> set sws" "src_id s = Some x" by auto
      with x show "y \<in> set (map src_id ?F)" by force
    qed
  qed
  also have "card (Some ` set p) = card (set p)"
    by (simp add: card_image)
  also have "\<dots> = length p" using path by (rule distinct_card)
  finally show ?thesis .
qed

lemma get_topology_now:
  "balanced (discovery v (polls v)) \<Longrightarrow> get_topology v = Some (poll_discovery v)"
  unfolding get_topology_def
  by (subst wait_loop.simps)
     (simp add: poll_discovery_def balanced_def get_switch_def get_host_def)

lemma line_topology:
  "get_topology (emit (PrintNoNewline ''New Switch'') line_world) =
     Some (poll_discovery (emit (PrintNoNewline ''New Switch'') line_world))"
  by (rule get_topology_now) (simp add: balanced_def emit_def line_world_def line_hosts_def)

lemma line_switches:
  "switches (poll_discovery (emit (PrintNoNewline ''New Switch'') line_world)) = [line_sw1, line_sw2, spare_sw4, line_sw3]"
  "hosts (poll_discovery (emit (PrintNoNewline ''New Switch'') line_world)) = line_hosts"
  "links (poll_discovery (emit (PrintNoNewline ''New Switch'') line_world)) = line_links"
  by (simp_all add: poll_discovery_def emit_def line_world_def get_switch_def get_host_def get_link_def)

lemma line_src_ids:
  "src_id line_sw1 = Some 0" "src_id line_sw2 = Some 1" "src_id line_sw3 = Some 2"
  "src_id spare_sw4 = Some 3"
  by code_simp+

lemma line_ports:
  "path_ingress line_graph 0 = Some 1" "path_egress line_graph 0 = Some 2"
  "path_ingress line_graph 1 = Some 2" "path_egress line_graph 1 = Some 3"
  "path_ingress line_graph 2 = Some 2" "path_egress line_graph 2 = Some 1"
  by code_simp+

lemma line_rule_pairs:
  "rule_pair line_graph line_sw1 = [(\<lparr>dp_id = 1\<rparr>, path_rule 1 2), (\<lparr>dp_id = 1\<rparr>, path_rule 2 1)]"
  "rule_pair line_graph line_sw2 = [(\<lparr>dp_id = 2\<rparr>, path_rule 2 3), (\<lparr>dp_id = 2\<rparr>, path_rule 3 2)]"
  "rule_pair line_graph line_sw3 = [(\<lparr>dp_id = 3\<rparr>, path_rule 2 1), (\<lparr>dp_id = 3\<rparr>, path_rule 1 2)]"
  "rule_pair line_graph spare_sw4 = []"
  by code_simp+


lemma line_path_ports:
  "\<forall>i < length (switch_path line_graph).
     path_ingress line_graph i \<noteq> None \<and> path_egress line_graph i \<noteq> None"
proof (intro allI impI)
  fix i assume "i < length (switch_path line_graph)"
  then have "i = 0 \<or> i = 1 \<or> i = 2" by (auto simp: line_graph_def)
  then show "path_ingress line_graph i \<noteq> None \<and> path_egress line_graph i \<noteq> None"
    using line_ports by auto
qed

lemma packet_in_no_ethernet:
  "pi_ethernet m = [] \<Longrightarrow> sent (snd (packet_in_handler m w)) = sent w"
  by (simp add: packet_in_handler_def Let_def)

lemma packet_in_flow_mods:
  assumes "(dp, OFPFlowMod fm) \<in> set (emitted v (snd (packet_in_handler m v)))"
  shows "fm_priority fm = 1"
proof (cases "pi_ethernet m")
  case Nil
  with assms show ?thesis by (simp add: emitted_def packet_in_no_ethernet)
next
  case (Cons e r)
  from packet_in_sent [OF Cons refl, of v] assms show ?thesis
    by (auto simp: emitted_def split: if_splits)
qed

lemma line_run:
  "\<exists>w'. handler_switch_event line_Graph ev line_world = Some (None, w') \<and>
     map without_cookie (emitted line_world w') =
       [(\<lparr>dp_id = 1\<rparr>, path_rule 1 2), (\<lparr>dp_id = 1\<rparr>, path_rule 2 1),
        (\<lparr>dp_id = 2\<rparr>, path_rule 2 3), (\<lparr>dp_id = 2\<rparr>, path_rule 3 2),
        (\<lparr>dp_id = 3\<rparr>, path_rule 2 1), (\<lparr>dp_id = 3\<rparr>, path_rule 1 2)]"
proof -
  let ?w1 = "poll_discovery (emit (PrintNoNewline ''New Switch'') line_world)"
  have gr: "line_Graph (switches ?w1) (hosts ?w1) (links ?w1) = Inr line_graph"
    by (simp add: line_Graph_def)
  from handler_switch_event_eq [of line_world ?w1 line_Graph line_graph ev, OF line_topology gr]
  obtain w6 where w6: "sent w6 = sent line_world"
      "handler_switch_event line_Graph ev line_world =
         Some (program_switches line_graph (length (switch_path line_graph)) (switches ?w1) w6)"
    by blast
  have parse: "\<forall>s \<in> set (switches ?w1). py_int (sw_dpid s) \<noteq> None"
    using line_src_ids by (auto simp: line_switches src_id_def)
  from program_switches_ok [OF parse line_path_ports, of w6] w6
  show ?thesis
    by (auto simp: emitted_def line_switches line_rule_pairs)
qed

lemma hex_topology:
  "get_topology (emit (PrintNoNewline ''New Switch'') hex_world) =
     Some (poll_discovery (emit (PrintNoNewline ''New Switch'') hex_world))"
  by (rule get_topology_now)
     (simp add: balanced_def emit_def hex_world_def line_world_def line_hosts_def)

lemma hex_switches:
  "switches (poll_discovery (emit (PrintNoNewline ''New Switch'') hex_world)) =
     [hex_sw10, line_sw1, line_sw2, line_sw3]"
  by (simp add: poll_discovery_def emit_def hex_world_def line_world_def get_switch_def)

lemma hex_dpid: "py_int (sw_dpid hex_sw10) = None"
  by code_simp

lemma program_switches_value_error:
  "py_int (sw_dpid s) = None \<Longrightarrow> program_switches g len (s # rest) w = (Some ValueError, w)"
  by (simp add: program_switch_def)

text \<open>
  Claim C1, at the input where the code departs from it. Four switches are reported: the
  switch with datapath id 10, whose identifier string is \<open>000000000000000a\<close>, and the
  three switches of the line. The computed path is the line, of length 3, and all its
  switches are reported. At the first switch of the loop \<open>int(data["dpid"])\<close> reads
  the hexadecimal string in base 10 and raises \<open>ValueError\<close>: the handler ends there and
  has sent none of the 6 rules of the path.
\<close>

theorem hex_dpid_stops_path_programming:
  "switch_path line_graph = [0, 1, 2] \<and>
   (\<exists>w'. handler_switch_event line_Graph line_sw1 hex_world = Some (Some ValueError, w') \<and>
         emitted hex_world w' = [])"
proof -
  let ?w1 = "poll_discovery (emit (PrintNoNewline ''New Switch'') hex_world)"
  have gr: "line_Graph (switches ?w1) (hosts ?w1) (links ?w1) = Inr line_graph"
    by (simp add: line_Graph_def)
  from handler_switch_event_eq [of hex_world ?w1 line_Graph line_graph line_sw1, OF hex_topology gr]
  obtain w6 where w6: "sent w6 = sent hex_world"
      "handler_switch_event line_Graph line_sw1 hex_world =
         Some (program_switches line_graph (length (switch_path line_graph)) (switches ?w1) w6)"
    by blast
  have "program_switches line_graph (length (switch_path line_graph)) (switches ?w1) w6 =
          (Some ValueError, w6)"
    unfolding hex_switches by (rule program_switches_value_error [OF hex_dpid])
  with w6 have "handler_switch_event line_Graph line_sw1 hex_world = Some (Some ValueError, w6) \<and>
      emitted hex_world w6 = []"
    by (simp add: emitted_def)
  then show ?thesis by (auto simp: line_graph_def)
qed

text \<open>
  The path programming when every identifier string is decimal. The convergence wait has
  returned with the topology \<open>w1\<close> and the
  constructor \<open>Graph\<close> has returned the object \<open>g\<close>. The path has no repeated
  switch. Every reported switch has a decimal identifier string, no two reported
  switches have the same identifier, and every identifier of the path is that of a
  reported switch. The port table has the ingress and the egress port of every position
  of the path. Then the handler returns normally, the number of rule-install messages it
  sends is twice the length of the path, and the messages are, in the order of the
  reported switches and cookies apart: nothing for a switch that is not on the path, and
  for a switch at position \<open>i\<close> of the path the forward rule (priority 200, match on the
  ingress port of \<open>i\<close>, one output action to the egress port of \<open>i\<close>) followed by the
  reverse rule (match on the egress port, one output action to the ingress port).
\<close>

theorem path_programming_installs_rule_pairs:
  assumes topo: "get_topology (emit (PrintNoNewline ''New Switch'') w) = Some w1"
    and gr: "Graph (switches w1) (hosts w1) (links w1) = Inr g"
    and path: "distinct (switch_path g)"
    and parse: "\<forall>s \<in> set (switches w1). py_int (sw_dpid s) \<noteq> None"
    and ids: "distinct (map src_id (switches w1))"
    and reported: "\<forall>x \<in> set (switch_path g). \<exists>s \<in> set (switches w1). src_id s = Some x"
    and ports: "\<forall>i < length (switch_path g).
                  path_ingress g i \<noteq> None \<and> path_egress g i \<noteq> None"
  shows "\<exists>w'. handler_switch_event Graph ev w = Some (None, w') \<and>
           length (emitted w w') = 2 * length (switch_path g) \<and>
           map without_cookie (emitted w w') = concat (map (rule_pair g) (switches w1))"
proof -
  from handler_switch_event_eq [of w w1 Graph g ev, OF topo gr]
  obtain w6 where w6: "sent w6 = sent w"
      "handler_switch_event Graph ev w =
         Some (program_switches g (length (switch_path g)) (switches w1) w6)"
    by blast
  from program_switches_ok [OF parse ports, of w6]
  obtain w' xs where run: "program_switches g (length (switch_path g)) (switches w1) w6 = (None, w')"
      "sent w' = sent w6 @ xs"
      "map without_cookie xs = concat (map (rule_pair g) (switches w1))"
    by blast
  have em: "emitted w w' = xs" using run(2) w6(1) by (simp add: emitted_def)
  have "length xs = length (map without_cookie xs)" by simp
  also have "\<dots> = 2 * length (filter (\<lambda>s. \<exists>x \<in> set (switch_path g). src_id s = Some x)
                                  (switches w1))"
    unfolding run(3) by (rule length_rule_pairs [OF ports])
  also have "\<dots> = 2 * length (switch_path g)"
    using on_path_count [OF ids path reported] by simp
  finally have "length xs = 2 * length (switch_path g)" .
  with w6(2) run(1) run(3) em show ?thesis by simp
qed

theorem path_programming_installs_rule_pairs_witness:
  "\<exists>w'. handler_switch_event line_Graph line_sw1 line_world = Some (None, w') \<and>
     length (emitted line_world w') = 6 \<and>
     map without_cookie (emitted line_world w') =
       [(\<lparr>dp_id = 1\<rparr>, path_rule 1 2), (\<lparr>dp_id = 1\<rparr>, path_rule 2 1),
        (\<lparr>dp_id = 2\<rparr>, path_rule 2 3), (\<lparr>dp_id = 2\<rparr>, path_rule 3 2),
        (\<lparr>dp_id = 3\<rparr>, path_rule 2 1), (\<lparr>dp_id = 3\<rparr>, path_rule 1 2)]"
proof -
  let ?w1 = "poll_discovery (emit (PrintNoNewline ''New Switch'') line_world)"
  have gr: "line_Graph (switches ?w1) (hosts ?w1) (links ?w1) = Inr line_graph"
    by (simp add: line_Graph_def)
  have path: "distinct (switch_path line_graph)" by (simp add: line_graph_def)
  have parse: "\<forall>s \<in> set (switches ?w1). py_int (sw_dpid s) \<noteq> None"
    using line_src_ids by (auto simp: line_switches src_id_def)
  have ids: "distinct (map src_id (switches ?w1))"
    by (simp add: line_switches line_src_ids)
  have reported: "\<forall>x \<in> set (switch_path line_graph). \<exists>s \<in> set (switches ?w1). src_id s = Some x"
    by (simp add: line_switches line_src_ids line_graph_def)
  have ports: "\<forall>i < length (switch_path line_graph).
                 path_ingress line_graph i \<noteq> None \<and> path_egress line_graph i \<noteq> None"
    by (rule line_path_ports)
  have len: "length (switch_path line_graph) = 3" by (simp add: line_graph_def)
  from path_programming_installs_rule_pairs
    [where Graph = line_Graph and ev = line_sw1, OF line_topology gr path parse ids reported ports]
  show ?thesis
    by (simp add: line_switches line_rule_pairs len)
qed

text \<open>
  Claim C8, at the input where the code departs from it. The switch with datapath id 10
  has the identifier string \<open>000000000000000a\<close> and is not on the path, whose
  identifiers are 0, 1 and 2. The loop body reads the string with \<open>int\<close> before it
  tests the membership in the path, and raises \<open>ValueError\<close>: the switch is not skipped
  without error, and the loop ends before the switches of the path that follow it.
\<close>

theorem hex_dpid_off_path_switch_raises:
  "dp_id (sw_dp hex_sw10) - 1 \<notin> set (switch_path line_graph) \<and>
   program_switch line_graph 3 hex_sw10 learnt_world = (Some ValueError, learnt_world) \<and>
   program_switches line_graph 3 [hex_sw10, line_sw1, line_sw2, line_sw3] learnt_world =
     (Some ValueError, learnt_world)"
proof -
  have "dp_id (sw_dp hex_sw10) - 1 \<notin> set (switch_path line_graph)"
    by (simp add: hex_sw10_def line_graph_def)
  moreover have "program_switch line_graph 3 hex_sw10 learnt_world = (Some ValueError, learnt_world)"
    by (simp add: program_switch_def hex_dpid)
  moreover have "program_switches line_graph 3 [hex_sw10, line_sw1, line_sw2, line_sw3] learnt_world =
     (Some ValueError, learnt_world)"
    by (rule program_switches_value_error [OF hex_dpid])
  ultimately show ?thesis by simp
qed

text \<open>
  A switch off the path whose identifier string is decimal. A reported switch \<open>s\<close> has
  the identifier \<open>d - 1\<close>, which is not in the
  path. Then the loop body for \<open>s\<close> ends at \<open>continue\<close>: it raises nothing and leaves
  the state as it is. And whatever the handler does for the other switches, it sends no
  message to the datapath of \<open>s\<close>, provided that no reported switch of the path shares
  that datapath object.
\<close>

theorem off_path_switch_is_skipped:
  assumes run: "handler_switch_event Graph ev w = Some (r, w')"
    and topo: "get_topology (emit (PrintNoNewline ''New Switch'') w) = Some w1"
    and gr: "Graph (switches w1) (hosts w1) (links w1) = Inr g"
    and s: "s \<in> set (switches w1)"
    and off: "py_int (sw_dpid s) = Some d" "d - 1 \<notin> set (switch_path g)"
    and own: "\<forall>t \<in> set (switches w1). sw_dp t = sw_dp s \<longrightarrow>
                (\<forall>x \<in> set (switch_path g). src_id t \<noteq> Some x)"
  shows "program_switch g (length (switch_path g)) s v = (None, v) \<and>
         (\<forall>m. (sw_dp s, m) \<notin> set (emitted w w'))"
proof
  show "program_switch g (length (switch_path g)) s v = (None, v)"
    using off by (rule program_switch_off_path)
  from handler_switch_event_eq [of w w1 Graph g ev, OF topo gr] run
  obtain w6 where w6: "sent w6 = sent w"
      "program_switches g (length (switch_path g)) (switches w1) w6 = (r, w')"
    by auto
  from program_switches_sent [of g "length (switch_path g)" "switches w1" w6] w6
  obtain xs where xs: "sent w' = sent w @ xs"
      "\<forall>x \<in> set xs. \<exists>t fm. t \<in> set (switches w1) \<and>
         (\<exists>y \<in> set (switch_path g). src_id t = Some y) \<and>
         x = (sw_dp t, OFPFlowMod fm) \<and> fm_priority fm = 200"
    by auto
  have em: "emitted w w' = xs" using xs(1) by (rule emitted_append)
  show "\<forall>m. (sw_dp s, m) \<notin> set (emitted w w')"
  proof (intro allI notI)
    fix m assume "(sw_dp s, m) \<in> set (emitted w w')"
    with em xs(2) obtain t y where t: "t \<in> set (switches w1)" "y \<in> set (switch_path g)"
        "src_id t = Some y" "sw_dp t = sw_dp s"
      by fastforce
    with own show False by blast
  qed
qed

theorem off_path_switch_is_skipped_witness:
  "\<exists>w'. handler_switch_event line_Graph line_sw1 line_world = Some (None, w') \<and>
     program_switch line_graph (length (switch_path line_graph)) spare_sw4 learnt_world
       = (None, learnt_world) \<and>
     (\<forall>m. (\<lparr>dp_id = 4\<rparr>, m) \<notin> set (emitted line_world w'))"
proof -
  let ?w1 = "poll_discovery (emit (PrintNoNewline ''New Switch'') line_world)"
  from line_run [of line_sw1]
  obtain w' where run: "handler_switch_event line_Graph line_sw1 line_world = Some (None, w')"
    by blast
  have gr: "line_Graph (switches ?w1) (hosts ?w1) (links ?w1) = Inr line_graph"
    by (simp add: line_Graph_def)
  have s: "spare_sw4 \<in> set (switches ?w1)" by (simp add: line_switches)
  have off: "py_int (sw_dpid spare_sw4) = Some 4" "4 - 1 \<notin> set (switch_path line_graph)"
    using line_src_ids(4) by (auto simp: src_id_def line_graph_def)
  have own: "\<forall>t \<in> set (switches ?w1). sw_dp t = sw_dp spare_sw4 \<longrightarrow>
                (\<forall>x \<in> set (switch_path line_graph). src_id t \<noteq> Some x)"
    by (simp add: line_switches line_src_ids line_graph_def)
       (simp add: line_sw1_def line_sw2_def line_sw3_def spare_sw4_def)
  from off_path_switch_is_skipped
    [where Graph = line_Graph and v = learnt_world, OF run line_topology gr s off own] run
  show ?thesis by (simp add: spare_sw4_def)
qed

text \<open>
  Claim C4. Take any run of the path programming and any run of the learning fallback,
  in any states and for any switches. Every flow-mod the path programming sends has
  priority 200, every flow-mod the learning fallback sends has priority 1: each rule of
  the first is strictly above each rule of the second, on the same switch or not.
\<close>

theorem path_rules_outrank_reactive_rules:
  assumes "handler_switch_event Graph ev w = Some (r, w')"
    and "(dp, OFPFlowMod pr) \<in> set (emitted w w')"
    and "packet_in_handler msg v = (r', v')"
    and "(dp', OFPFlowMod rr) \<in> set (emitted v v')"
  shows "fm_priority pr = 200 \<and> fm_priority rr = 1 \<and> fm_priority rr < fm_priority pr"
proof -
  from handler_switch_event_sent [OF assms(1)] assms(2)
  have p: "fm_priority pr = 200" by (auto simp: emitted_def)
  from packet_in_flow_mods [of dp' rr v msg] assms(3,4)
  have "fm_priority rr = 1" by simp
  with p show ?thesis by simp
qed

theorem path_rules_outrank_reactive_rules_witness:
  "\<exists>w' pr v' rr.
     handler_switch_event line_Graph line_sw1 line_world = Some (None, w') \<and>
     (\<lparr>dp_id = 1\<rparr>, OFPFlowMod pr) \<in> set (emitted line_world w') \<and>
     packet_in_handler pkt_reply learnt_world = (None, v') \<and>
     (\<lparr>dp_id = 1\<rparr>, OFPFlowMod rr) \<in> set (emitted learnt_world v') \<and>
     fm_priority pr = 200 \<and> fm_priority rr = 1 \<and> fm_priority rr < fm_priority pr"
proof -
  from line_run [of line_sw1]
  obtain w' where run: "handler_switch_event line_Graph line_sw1 line_world = Some (None, w')"
    and rules: "map without_cookie (emitted line_world w') =
       [(\<lparr>dp_id = 1\<rparr>, path_rule 1 2), (\<lparr>dp_id = 1\<rparr>, path_rule 2 1),
        (\<lparr>dp_id = 2\<rparr>, path_rule 2 3), (\<lparr>dp_id = 2\<rparr>, path_rule 3 2),
        (\<lparr>dp_id = 3\<rparr>, path_rule 2 1), (\<lparr>dp_id = 3\<rparr>, path_rule 1 2)]"
    by auto
  from rules obtain x xs where x: "emitted line_world w' = x # xs"
      "without_cookie x = (\<lparr>dp_id = 1\<rparr>, path_rule 1 2)"
    by (cases "emitted line_world w'") auto
  from x(2) obtain pr where "x = (\<lparr>dp_id = 1\<rparr>, OFPFlowMod pr)"
    by (cases x, cases "snd x") (auto simp: without_cookie_def path_rule_def)
  with x(1) have pr: "(\<lparr>dp_id = 1\<rparr>, OFPFlowMod pr) \<in> set (emitted line_world w')" by simp
  have eth: "pi_ethernet pkt_reply =
      [\<lparr>eth_dst = ''00:00:00:00:00:01'', eth_src = ''00:00:00:00:00:02''\<rparr>]"
    by (simp add: pkt_reply_def)
  have out: "1 = (case ((mac_table learnt_world (dp_id (pi_datapath pkt_reply)))
                 (eth_src \<lparr>eth_dst = ''00:00:00:00:00:01'', eth_src = ''00:00:00:00:00:02''\<rparr>
                    \<mapsto> pi_in_port pkt_reply))
               (eth_dst \<lparr>eth_dst = ''00:00:00:00:00:01'', eth_src = ''00:00:00:00:00:02''\<rparr>) of
             Some p \<Rightarrow> p | None \<Rightarrow> OFPP_FLOOD)"
    by (simp add: pkt_reply_def learnt_world_fields)
  obtain v' where v': "packet_in_handler pkt_reply learnt_world = (None, v')"
    using packet_in_returns [OF eth, of learnt_world]
    by (cases "packet_in_handler pkt_reply learnt_world") simp
  have "\<exists>rr. (\<lparr>dp_id = 1\<rparr>, OFPFlowMod rr) \<in> set (emitted learnt_world v')"
    using packet_in_sent [OF eth out] v'
    by (simp add: emitted_def pkt_reply_def OFPP_FLOOD_def)
  then obtain rr where rr: "(\<lparr>dp_id = 1\<rparr>, OFPFlowMod rr) \<in> set (emitted learnt_world v')" ..
  from path_rules_outrank_reactive_rules [OF run pr v' rr] run pr v' rr
  show ?thesis by blast
qed

section \<open>Further properties\<close>

text \<open>
  What \<open>add_flow\<close> does for every argument. It sends exactly one message, a flow-mod to
  the given datapath with the given priority and match and one apply-actions instruction
  holding the given actions. When \<open>buffer_id\<close> is an integer other than 0 the flow-mod
  carries it and no cookie; when it is \<open>None\<close> or 0 the flow-mod carries no buffer
  reference and a cookie between 0 and 255.
\<close>

theorem add_flow_sends_one_flow_mod:
  "\<exists>fm. sent (add_flow datapath priority match actions buffer_id w) =
           sent w @ [(datapath, OFPFlowMod fm)] \<and>
     fm_priority fm = priority \<and> fm_match fm = match \<and>
     fm_instructions fm = [OFPInstructionActions OFPIT_APPLY_ACTIONS actions] \<and>
     (if truthy buffer_id
      then fm_buffer_id fm = buffer_id \<and> fm_cookie fm = None
      else fm_buffer_id fm = None \<and> (\<exists>c. fm_cookie fm = Some c \<and> 0 \<le> c \<and> c \<le> 255))"
proof (cases "truthy buffer_id")
  case True
  then show ?thesis by (simp add: add_flow_eq)
next
  case False
  have "int (entropy w (draws w) mod 256) \<le> 255"
    using mod_less_divisor [of 256 "entropy w (draws w)"] by linarith
  with False show ?thesis by (simp add: add_flow_eq)
qed

text \<open>
  The forwarding decisions of the learning fallback when the buffer reference is not 0.
  For a frame with an Ethernet header, whatever the table holds and whether the event
  has a buffer (other than buffer 0) or none, the handler returns normally and exactly
  one forwarding decision is among the messages it sends: either one packet-out and no
  flow-mod carrying the buffer of the frame, or one flow-mod carrying it and no
  packet-out.
\<close>

theorem packet_in_one_decision:
  assumes eth: "pi_ethernet msg = eth # rest"
    and buffer: "pi_buffer_id msg \<noteq> 0"
  shows "\<exists>w'. packet_in_handler msg w = (None, w') \<and>
           length (filter is_packet_out (emitted w w')) +
           length (filter (resolves_buffer (pi_buffer_id msg)) (emitted w w')) = 1"
proof -
  obtain w' where w': "packet_in_handler msg w = (None, w')"
    using packet_in_returns [OF eth, of w] by (cases "packet_in_handler msg w") simp
  from packet_in_sent [OF eth refl, of w] w' buffer
  have "length (filter is_packet_out (drop (length (sent w)) (sent w'))) +
        length (filter (resolves_buffer (pi_buffer_id msg)) (drop (length (sent w)) (sent w'))) = 1"
    by (simp add: is_packet_out_def resolves_buffer_def del: fun_upd_apply)
  with w' show ?thesis by (simp add: emitted_def)
qed

theorem packet_in_one_decision_witness:
  "\<exists>w'. packet_in_handler pkt_reply learnt_world = (None, w') \<and>
     length (filter is_packet_out (emitted learnt_world w')) +
     length (filter (resolves_buffer 0xffffffff) (emitted learnt_world w')) = 1"
proof -
  have eth: "pi_ethernet pkt_reply =
      \<lparr>eth_dst = ''00:00:00:00:00:01'', eth_src = ''00:00:00:00:00:02''\<rparr> # []"
    by (simp add: pkt_reply_def)
  have buffer: "pi_buffer_id pkt_reply \<noteq> 0"
    by (simp add: pkt_reply_def OFP_NO_BUFFER_def)
  from packet_in_one_decision [OF eth buffer, of learnt_world] show ?thesis
    by (simp add: pkt_reply_def OFP_NO_BUFFER_def)
qed

text \<open>
  Learning is idempotent: handling the same packet-in event a second time leaves every
  MAC table as the first handling left it.
\<close>

theorem relearning_changes_nothing:
  "mac_table (snd (packet_in_handler m (snd (packet_in_handler m w)))) k =
   mac_table (snd (packet_in_handler m w)) k"
  by (simp add: mac_table_packet_in split: list.split)

text \<open>
  \<open>int(data["dpid"])\<close> reads the identifier string in base 10. A reported switch whose
  string is not a decimal numeral, such as one with the hexadecimal digit \<open>a\<close>, makes
  the loop raise \<open>ValueError\<close> at that switch: nothing is sent for it, and the switches
  after it in the list are not visited.
\<close>

theorem non_decimal_dpid_raises:
  assumes "py_int (sw_dpid s) = None"
  shows "program_switch g len s w = (Some ValueError, w) \<and>
         program_switches g len (s # rest) w = (Some ValueError, w)"
  using assms by (simp add: program_switch_def)

theorem non_decimal_dpid_raises_witness:
  "program_switches line_graph 3
     (\<lparr>sw_dpid = ''000000000000000a'', sw_dp = \<lparr>dp_id = 10\<rparr>\<rparr> # [line_sw1]) learnt_world
   = (Some ValueError, learnt_world)"
proof -
  have "py_int (sw_dpid \<lparr>sw_dpid = ''000000000000000a'', sw_dp = \<lparr>dp_id = 10\<rparr>\<rparr>) = None"
    by code_simp
  from non_decimal_dpid_raises [OF this, of line_graph 3 learnt_world "[line_sw1]"]
  show ?thesis by simp
qed

end
